theory Spec2Isabelle
  imports Complex_Main "HOL-Library.Word" "HOL-Library.Monad_Syntax"
begin

section \<open>Strings of the program\<close>

text \<open>
  A string of the program is a sequence of UTF-16 code units; \<open>length\<close> is the
  program's \<^verbatim>\<open>.length\<close>.  \<open>lit\<close> writes an ASCII literal.
\<close>

type_synonym codeunit = "16 word"
type_synonym jsstring = "codeunit list"

definition cu :: "char \<Rightarrow> codeunit" where
  "cu c = of_nat (of_char c)"

definition lit :: "string \<Rightarrow> jsstring" where
  "lit s = map cu s"

definition LT :: codeunit where "LT = 0x3C"
definition GT :: codeunit where "GT = 0x3E"

text \<open>
  \<^verbatim>\<open>String.prototype.trim\<close> removes the code units that are WhiteSpace or
  LineTerminator of the language: TAB, LF, VT, FF, CR, SP, NBSP, U+1680, U+2000..U+200A,
  U+2028, U+2029, U+202F, U+205F, U+3000 and U+FEFF.
\<close>

definition isWhiteSpace :: "codeunit \<Rightarrow> bool" where
  "isWhiteSpace c =
     (c \<in> {0x09, 0x0A, 0x0B, 0x0C, 0x0D, 0x20, 0xA0, 0x1680, 0x2028, 0x2029, 0x202F,
            0x205F, 0x3000, 0xFEFF}
      \<or> (0x2000 \<le> c \<and> c \<le> 0x200A))"

definition trimStart :: "jsstring \<Rightarrow> jsstring" where
  "trimStart s = dropWhile isWhiteSpace s"

definition trimEnd :: "jsstring \<Rightarrow> jsstring" where
  "trimEnd s = rev (dropWhile isWhiteSpace (rev s))"

definition trim :: "jsstring \<Rightarrow> jsstring" where
  "trim s = trimEnd (trimStart s)"

section \<open>sanitizeString\<close>

text \<open>
  \<^verbatim>\<open>str.replace(/<[^>]*>?/gm, '')\<close>: scanning from the left, a match starts at each
  \<open><\<close>, takes every following code unit that is not \<open>>\<close> (the class is negated, so
  it also takes line breaks and further \<open><\<close>), and then one \<open>>\<close> if there is one.
  \<open>afterTag cs\<close> is what is left of the input behind a match whose \<open><\<close> stood right
  before \<open>cs\<close>.  The flags \<open>g\<close> and \<open>m\<close> make the replacement global; \<open>m\<close> changes
  nothing else, the pattern has no anchor.
\<close>

definition afterTag :: "jsstring \<Rightarrow> jsstring" where
  "afterTag cs = (case dropWhile (\<lambda>c. c \<noteq> GT) cs of [] \<Rightarrow> [] | g # rest \<Rightarrow> rest)"

lemma length_afterTag: "length (afterTag cs) \<le> length cs"
proof (cases "dropWhile (\<lambda>c. c \<noteq> GT) cs")
  case Nil
  show ?thesis unfolding afterTag_def Nil by simp
next
  case (Cons g rest)
  have "length (dropWhile (\<lambda>c. c \<noteq> GT) cs) \<le> length cs"
    by (rule length_dropWhile_le)
  then show ?thesis unfolding afterTag_def Cons by simp
qed

function replaceTags :: "jsstring \<Rightarrow> jsstring" where
  "replaceTags [] = []"
| "replaceTags (c # cs) = (if c = LT then replaceTags (afterTag cs) else c # replaceTags cs)"
  by pat_completeness auto
termination
  by (relation "measure length") (auto simp: length_afterTag le_imp_less_Suc)

text \<open>\<^verbatim>\<open>.trim().substring(0, 255)\<close> on the result.\<close>

definition sanitizeString :: "jsstring \<Rightarrow> jsstring" where
  "sanitizeString str = take 255 (trim (replaceTags str))"

section \<open>Numbers of the program\<close>

text \<open>
  A Number is NaN, an infinity or a finite value.  Every finite binary64 value is a
  real number, so the validator, which only coerces, tests and clamps, is modelled on the
  values it really sees; \<open>-0\<close> is identified with \<open>0\<close> (both are falsy, and the clamp
  \<^verbatim>\<open>Math.max(0, x)\<close> returns \<open>+0\<close> for either).  The arithmetic of the allocation
  (\<open>+\<close>, \<open>*\<close>, \<open>/\<close>) is exact on finite values here: rounding, overflow and underflow
  of binary64 are not modelled.
\<close>

datatype number = NaN | PInf | NInf | Fin real

definition isNaN :: "number \<Rightarrow> bool" where
  "isNaN n = (n = NaN)"

fun isFinite :: "number \<Rightarrow> bool" where
  "isFinite (Fin a) = True"
| "isFinite n = False"

text \<open>\<^verbatim>\<open>x >= 0\<close> and \<^verbatim>\<open>x > 0\<close>: false on NaN.\<close>

fun nonNegative :: "number \<Rightarrow> bool" where
  "nonNegative (Fin a) = (0 \<le> a)"
| "nonNegative PInf = True"
| "nonNegative n = False"

fun positive :: "number \<Rightarrow> bool" where
  "positive (Fin a) = (0 < a)"
| "positive PInf = True"
| "positive n = False"

text \<open>A number is falsy when it is \<open>0\<close> or NaN.\<close>

definition truthyNum :: "number \<Rightarrow> bool" where
  "truthyNum n = (n \<noteq> NaN \<and> n \<noteq> Fin 0)"

fun num_add :: "number \<Rightarrow> number \<Rightarrow> number" where
  "num_add NaN y = NaN"
| "num_add x NaN = NaN"
| "num_add PInf NInf = NaN"
| "num_add NInf PInf = NaN"
| "num_add PInf y = PInf"
| "num_add x PInf = PInf"
| "num_add NInf y = NInf"
| "num_add x NInf = NInf"
| "num_add (Fin a) (Fin b) = Fin (a + b)"

fun num_neg :: "number \<Rightarrow> number" where
  "num_neg NaN = NaN"
| "num_neg PInf = NInf"
| "num_neg NInf = PInf"
| "num_neg (Fin a) = Fin (- a)"

fun num_mul :: "number \<Rightarrow> number \<Rightarrow> number" where
  "num_mul NaN y = NaN"
| "num_mul x NaN = NaN"
| "num_mul (Fin a) (Fin b) = Fin (a * b)"
| "num_mul (Fin a) y = (if a = 0 then NaN else if 0 < a then y else num_neg y)"
| "num_mul x (Fin b) = (if b = 0 then NaN else if 0 < b then x else num_neg x)"
| "num_mul x y = (if x = y then PInf else NInf)"

fun num_div :: "number \<Rightarrow> number \<Rightarrow> number" where
  "num_div NaN y = NaN"
| "num_div x NaN = NaN"
| "num_div (Fin a) (Fin b) =
     (if b = 0 then (if a = 0 then NaN else if 0 < a then PInf else NInf) else Fin (a / b))"
| "num_div (Fin a) y = Fin 0"
| "num_div x (Fin b) = (if 0 \<le> b then x else num_neg x)"
| "num_div x y = NaN"

text \<open>\<^verbatim>\<open>Math.max(a, b)\<close>: NaN when an argument is NaN.\<close>

fun Math_max :: "number \<Rightarrow> number \<Rightarrow> number" where
  "Math_max NaN y = NaN"
| "Math_max x NaN = NaN"
| "Math_max PInf y = PInf"
| "Math_max x PInf = PInf"
| "Math_max NInf y = y"
| "Math_max x NInf = x"
| "Math_max (Fin a) (Fin b) = Fin (max a b)"

text \<open>\<^verbatim>\<open>a || b\<close> on numbers.\<close>

definition num_or :: "number \<Rightarrow> number \<Rightarrow> number" where
  "num_or a b = (if truthyNum a then a else b)"

section \<open>The data of the program (types.ts)\<close>

record ReceiptItem =
  id' :: jsstring
  quantity :: number
  description :: jsstring
  price :: number

record ReceiptData =
  restaurantName :: jsstring
  date :: jsstring
  items :: "ReceiptItem list"
  subtotal :: number
  tax :: number
  tip :: number
  total :: number
  currency :: jsstring

record UserSelection =
  itemId :: jsstring
  splitCount :: number
  isSelected :: bool

datatype AppState = HOME | CAMERA | PROCESSING | CONFIRM_INFO | SELECT_ITEMS | SUMMARY

section \<open>The allocation: calculations\<close>

text \<open>
  \<open>userSelections\<close> is a \<^verbatim>\<open>Record<string, UserSelection>\<close>: an association list in
  the order in which the object enumerates its properties, and \<^verbatim>\<open>Object.values\<close> gives
  the values in that order.  The result of \<open>calculations\<close> has the fields \<^verbatim>\<open>subtotal\<close>,
  \<^verbatim>\<open>tax\<close>, \<^verbatim>\<open>tip\<close>, \<^verbatim>\<open>total\<close> and \<^verbatim>\<open>ratio\<close>; they carry the prefix \<open>user\<close> here,
  since a receipt has fields of the same names.
\<close>

record Allocation =
  userSubtotal :: number
  userTax :: number
  userTip :: number
  userTotal :: number
  userRatio :: number

definition Object_values :: "(jsstring \<times> UserSelection) list \<Rightarrow> UserSelection list" where
  "Object_values obj = map snd obj"

text \<open>The callback of the \<^verbatim>\<open>reduce\<close> over the selected selections.\<close>

definition addShare :: "ReceiptData \<Rightarrow> number \<Rightarrow> UserSelection \<Rightarrow> number" where
  "addShare receipt acc sel =
     (case find (\<lambda>i. id' i = itemId sel) (items receipt) of
        Some item \<Rightarrow> num_add acc (num_div (price item) (splitCount sel))
      | None \<Rightarrow> acc)"

definition calculations ::
  "ReceiptData option \<Rightarrow> (jsstring \<times> UserSelection) list \<Rightarrow> Allocation" where
  "calculations receipt userSelections =
     (case receipt of
        None \<Rightarrow>
          \<lparr>userSubtotal = Fin 0, userTax = Fin 0, userTip = Fin 0, userTotal = Fin 0,
           userRatio = Fin 0\<rparr>
      | Some r \<Rightarrow>
          let selections = Object_values userSelections;
              uSubtotal = foldl (addShare r) (Fin 0) (filter isSelected selections);
              receiptSubtotal =
                num_or (subtotal r) (foldl (\<lambda>acc item. num_add acc (price item)) (Fin 0) (items r));
              uRatio = (if positive receiptSubtotal then num_div uSubtotal receiptSubtotal
                        else Fin 0)
          in \<lparr>userSubtotal = uSubtotal,
              userTax = num_mul (num_or (tax r) (Fin 0)) uRatio,
              userTip = num_mul (num_or (tip r) (Fin 0)) uRatio,
              userTotal =
                num_add (num_add uSubtotal (num_mul (num_or (tax r) (Fin 0)) uRatio))
                  (num_mul (num_or (tip r) (Fin 0)) uRatio),
              userRatio = uRatio\<rparr>)"

section \<open>Untyped data: what the validator is given\<close>

text \<open>
  \<^verbatim>\<open>data: any\<close> is the result of \<^verbatim>\<open>JSON.parse\<close> (of the decoded link, or of the AI
  service's answer): null, a boolean, a number, a string, an array or an object whose
  properties are listed in order; \<open>Undefined\<close> is what reading an absent property gives.
\<close>

datatype jsval =
    Undefined
  | Null
  | Bool bool
  | Num number
  | Str jsstring
  | Arr "jsval list"
  | Obj "(jsstring \<times> jsval) list"

datatype jstype = TUndefined | TObject | TBoolean | TNumber | TString

fun typeof :: "jsval \<Rightarrow> jstype" where
  "typeof Undefined = TUndefined"
| "typeof Null = TObject"
| "typeof (Bool b) = TBoolean"
| "typeof (Num n) = TNumber"
| "typeof (Str s) = TString"
| "typeof (Arr xs) = TObject"
| "typeof (Obj kvs) = TObject"

fun truthy :: "jsval \<Rightarrow> bool" where
  "truthy Undefined = False"
| "truthy Null = False"
| "truthy (Bool b) = b"
| "truthy (Num n) = truthyNum n"
| "truthy (Str s) = (s \<noteq> [])"
| "truthy (Arr xs) = True"
| "truthy (Obj kvs) = True"

fun isArray :: "jsval \<Rightarrow> bool" where
  "isArray (Arr xs) = True"
| "isArray v = False"

text \<open>
  Reading a property: a TypeError (\<open>None\<close>) on \<open>null\<close> and \<open>undefined\<close>, the property's
  value on an object, and \<open>undefined\<close> otherwise.  The program reads the properties
  \<^verbatim>\<open>restaurantName\<close>, \<^verbatim>\<open>date\<close>, \<^verbatim>\<open>currency\<close>, \<^verbatim>\<open>subtotal\<close>, \<^verbatim>\<open>tax\<close>, \<^verbatim>\<open>tip\<close>,
  \<^verbatim>\<open>total\<close>, \<^verbatim>\<open>items\<close>, \<^verbatim>\<open>id\<close>, \<^verbatim>\<open>quantity\<close>, \<^verbatim>\<open>description\<close> and \<^verbatim>\<open>price\<close>; none of
  them is a property of a string, an array, a number or a boolean, or inherited from
  \<^verbatim>\<open>Object.prototype\<close>.
\<close>

fun getProp :: "jsval \<Rightarrow> jsstring \<Rightarrow> jsval option" where
  "getProp Undefined k = None"
| "getProp Null k = None"
| "getProp (Obj kvs) k = Some (case map_of kvs k of Some v \<Rightarrow> v | None \<Rightarrow> Undefined)"
| "getProp v k = Some Undefined"

text \<open>\<^verbatim>\<open>a || b\<close> on values.\<close>

definition val_or :: "jsval \<Rightarrow> jsval \<Rightarrow> jsval" where
  "val_or a b = (if truthy a then a else b)"

section \<open>The language runtime\<close>

text \<open>
  The functions of the language and of the browser that the program calls are parameters
  of the model.  \<open>None\<close> is a thrown exception.
  \<^item> \<open>StringToNumber\<close>: \<^verbatim>\<open>Number(s)\<close> on a string.
  \<^item> \<open>ObjectToNumber\<close>: \<^verbatim>\<open>Number(v)\<close> on an array or an object (conversion to a
    primitive first, which can throw a TypeError).
  \<^item> \<open>JSON_stringify\<close>, \<open>JSON_parse\<close> (a SyntaxError is \<open>None\<close>).
  \<^item> \<open>TextEncoder_encode\<close>, \<open>TextDecoder_decode\<close>: UTF-8, neither throws.
  \<^item> \<open>btoa\<close>, \<open>atob\<close> (\<open>None\<close>: InvalidCharacterError).
  \<^item> \<open>encodeURIComponent\<close>, \<open>decodeURIComponent\<close> (\<open>None\<close>: URIError).
\<close>

type_synonym byte = "8 word"

record runtime =
  StringToNumber :: "jsstring \<Rightarrow> number"
  ObjectToNumber :: "jsval \<Rightarrow> number option"
  JSON_stringify :: "jsval \<Rightarrow> jsstring option"
  JSON_parse :: "jsstring \<Rightarrow> jsval option"
  TextEncoder_encode :: "jsstring \<Rightarrow> byte list"
  TextDecoder_decode :: "byte list \<Rightarrow> jsstring"
  btoa :: "jsstring \<Rightarrow> jsstring option"
  atob :: "jsstring \<Rightarrow> jsstring option"
  encodeURIComponent :: "jsstring \<Rightarrow> jsstring option"
  decodeURIComponent :: "jsstring \<Rightarrow> jsstring option"

text \<open>\<^verbatim>\<open>Number(v)\<close>.\<close>

fun ToNumber :: "runtime \<Rightarrow> jsval \<Rightarrow> number option" where
  "ToNumber rt Undefined = Some NaN"
| "ToNumber rt Null = Some (Fin 0)"
| "ToNumber rt (Bool b) = Some (if b then Fin 1 else Fin 0)"
| "ToNumber rt (Num n) = Some n"
| "ToNumber rt (Str s) = Some (StringToNumber rt s)"
| "ToNumber rt (Arr xs) = ObjectToNumber rt (Arr xs)"
| "ToNumber rt (Obj kvs) = ObjectToNumber rt (Obj kvs)"

section \<open>validateReceiptIntegrity\<close>

text \<open>
  \<open>sanitizeString\<close> called on an untyped argument: \<^verbatim>\<open>str.replace\<close> is a function only
  when \<open>str\<close> is a string; on any other value the call is a TypeError.
\<close>

fun sanitizeString_any :: "jsval \<Rightarrow> jsstring option" where
  "sanitizeString_any (Str s) = Some (sanitizeString s)"
| "sanitizeString_any v = None"

text \<open>The decimal digits of an index, for the template literal \<^verbatim>\<open>`shared-${idx}`\<close>.\<close>

fun natToString :: "nat \<Rightarrow> jsstring" where
  "natToString n =
     (if n < 10 then [0x30 + of_nat n]
      else natToString (n div 10) @ [0x30 + of_nat (n mod 10)])"

declare natToString.simps [simp del]

text \<open>
  \<^verbatim>\<open>Number(x) || d\<close>, and the same under \<^verbatim>\<open>Math.max(0, ...)\<close>.
\<close>

definition numberOr :: "runtime \<Rightarrow> jsval \<Rightarrow> number \<Rightarrow> number option" where
  "numberOr rt x d = map_option (\<lambda>n. num_or n d) (ToNumber rt x)"

definition clampedNumberOr :: "runtime \<Rightarrow> jsval \<Rightarrow> number \<Rightarrow> number option" where
  "clampedNumberOr rt x d = map_option (\<lambda>n. Math_max (Fin 0) (num_or n d)) (ToNumber rt x)"

text \<open>The callback of \<^verbatim>\<open>data.items.map\<close>, in the order in which the source evaluates.\<close>

definition sanitizeItem :: "runtime \<Rightarrow> jsval \<Rightarrow> nat \<Rightarrow> ReceiptItem option" where
  "sanitizeItem rt item idx =
     do {
       rawId \<leftarrow> getProp item (lit ''id'');
       i \<leftarrow> sanitizeString_any (val_or rawId (Str (lit ''shared-'' @ natToString idx)));
       rawQuantity \<leftarrow> getProp item (lit ''quantity'');
       q \<leftarrow> clampedNumberOr rt rawQuantity (Fin 1);
       rawDescription \<leftarrow> getProp item (lit ''description'');
       d \<leftarrow> sanitizeString_any (val_or rawDescription (Str (lit ''Unknown Item'')));
       rawPrice \<leftarrow> getProp item (lit ''price'');
       p \<leftarrow> clampedNumberOr rt rawPrice (Fin 0);
       Some \<lparr>id' = i, quantity = q, description = d, price = p\<rparr>
     }"

text \<open>\<open>Array.prototype.map\<close> with the index; an exception in the callback ends it.\<close>

fun mapItems :: "runtime \<Rightarrow> jsval list \<Rightarrow> nat \<Rightarrow> ReceiptItem list option" where
  "mapItems rt [] idx = Some []"
| "mapItems rt (item # rest) idx =
     do {
       i \<leftarrow> sanitizeItem rt item idx;
       is \<leftarrow> mapItems rt rest (Suc idx);
       Some (i # is)
     }"

text \<open>
  The body of the \<^verbatim>\<open>try\<close> block.  \<open>None\<close> is the result \<^verbatim>\<open>null\<close>: returned by one of
  the three checks, or by the \<^verbatim>\<open>catch\<close> when a step throws.  \<open>itemsSum\<close> is computed
  and not used, as in the source.
\<close>

definition itemsSum :: "ReceiptData \<Rightarrow> number" where
  "itemsSum sanitized = foldl (\<lambda>acc item. num_add acc (price item)) (Fin 0) (items sanitized)"

definition validateReceiptIntegrity :: "runtime \<Rightarrow> jsval \<Rightarrow> ReceiptData option" where
  "validateReceiptIntegrity rt data =
     (if \<not> truthy data \<or> typeof data \<noteq> TObject then None
      else
        do {
          rawName \<leftarrow> getProp data (lit ''restaurantName'');
          rawItems \<leftarrow> getProp data (lit ''items'');
          if typeof rawName \<noteq> TString then None
          else if \<not> isArray rawItems then None
          else
            do {
              name \<leftarrow> sanitizeString_any rawName;
              rawDate \<leftarrow> getProp data (lit ''date'');
              d \<leftarrow> sanitizeString_any (val_or rawDate (Str []));
              rawCurrency \<leftarrow> getProp data (lit ''currency'');
              c \<leftarrow> sanitizeString_any (val_or rawCurrency (Str (lit ''$'')));
              rawSubtotal \<leftarrow> getProp data (lit ''subtotal'');
              sub \<leftarrow> numberOr rt rawSubtotal (Fin 0);
              rawTax \<leftarrow> getProp data (lit ''tax'');
              tx \<leftarrow> numberOr rt rawTax (Fin 0);
              rawTip \<leftarrow> getProp data (lit ''tip'');
              tp \<leftarrow> numberOr rt rawTip (Fin 0);
              rawTotal \<leftarrow> getProp data (lit ''total'');
              tot \<leftarrow> numberOr rt rawTotal (Fin 0);
              its \<leftarrow> mapItems rt (case rawItems of Arr xs \<Rightarrow> xs | _ \<Rightarrow> []) 0;
              let sanitized =
                    \<lparr>restaurantName = name, date = d, items = its, subtotal = sub, tax = tx,
                     tip = tp, total = tot, currency = c\<rparr>;
                  itemsSum = itemsSum sanitized
              in Some sanitized
            }
        })"

section \<open>The allocation as the specification words it\<close>

text \<open>
  The four steps of the specification's allocation algorithm, written from its text, to
  be compared with \<open>calculations\<close>.  A selection whose item is missing contributes \<open>0\<close>.
\<close>

fun sum_numbers :: "number list \<Rightarrow> number" where
  "sum_numbers [] = Fin 0"
| "sum_numbers (x # xs) = num_add x (sum_numbers xs)"

definition spec_share :: "ReceiptData \<Rightarrow> UserSelection \<Rightarrow> number" where
  "spec_share r sel =
     (case find (\<lambda>i. id' i = itemId sel) (items r) of
        Some item \<Rightarrow> num_div (price item) (splitCount sel)
      | None \<Rightarrow> Fin 0)"

definition spec_claimedSubtotal :: "ReceiptData \<Rightarrow> UserSelection list \<Rightarrow> number" where
  "spec_claimedSubtotal r sels = sum_numbers (map (spec_share r) (filter isSelected sels))"

definition spec_receiptSubtotal :: "ReceiptData \<Rightarrow> number" where
  "spec_receiptSubtotal r =
     (if positive (subtotal r) then subtotal r else sum_numbers (map price (items r)))"

definition spec_ratio :: "ReceiptData \<Rightarrow> UserSelection list \<Rightarrow> number" where
  "spec_ratio r sels =
     (if positive (spec_receiptSubtotal r)
      then num_div (spec_claimedSubtotal r sels) (spec_receiptSubtotal r)
      else Fin 0)"

definition spec_allocation :: "ReceiptData \<Rightarrow> UserSelection list \<Rightarrow> Allocation" where
  "spec_allocation r sels =
     \<lparr>userSubtotal = spec_claimedSubtotal r sels,
      userTax = num_mul (tax r) (spec_ratio r sels),
      userTip = num_mul (tip r) (spec_ratio r sels),
      userTotal =
        num_add (num_add (spec_claimedSubtotal r sels) (num_mul (tax r) (spec_ratio r sels)))
          (num_mul (tip r) (spec_ratio r sels)),
      userRatio = spec_ratio r sels\<rparr>"

section \<open>Predicates on receipts and on untyped documents\<close>

text \<open>What the specification asks of a number of a validated receipt, and of all of them.\<close>

definition finiteNonNegative :: "number \<Rightarrow> bool" where
  "finiteNonNegative n = (isFinite n \<and> nonNegative n)"

definition numbersFiniteNonNegative :: "ReceiptData \<Rightarrow> bool" where
  "numbersFiniteNonNegative r =
     (finiteNonNegative (subtotal r) \<and> finiteNonNegative (tax r) \<and> finiteNonNegative (tip r)
      \<and> finiteNonNegative (total r)
      \<and> list_all (\<lambda>i. finiteNonNegative (quantity i) \<and> finiteNonNegative (price i)) (items r))"

text \<open>What the validator establishes: no NaN anywhere, and no negative quantity or price.\<close>

definition numbersValid :: "ReceiptData \<Rightarrow> bool" where
  "numbersValid r =
     (\<not> isNaN (subtotal r) \<and> \<not> isNaN (tax r) \<and> \<not> isNaN (tip r) \<and> \<not> isNaN (total r)
      \<and> list_all (\<lambda>i. nonNegative (quantity i) \<and> nonNegative (price i)) (items r))"

text \<open>No text of the receipt holds a \<open><\<close>.\<close>

definition textsWithoutLT :: "ReceiptData \<Rightarrow> bool" where
  "textsWithoutLT r =
     (LT \<notin> set (restaurantName r) \<and> LT \<notin> set (date r) \<and> LT \<notin> set (currency r)
      \<and> list_all (\<lambda>i. LT \<notin> set (id' i) \<and> LT \<notin> set (description i)) (items r))"

text \<open>A property of a value that is not \<open>null\<close> or \<open>undefined\<close>; \<open>undefined\<close> when absent.\<close>

definition field :: "jsval \<Rightarrow> string \<Rightarrow> jsval" where
  "field v k = (case getProp v (lit k) of Some x \<Rightarrow> x | None \<Rightarrow> Undefined)"

definition elements :: "jsval \<Rightarrow> jsval list" where
  "elements v = (case v of Arr xs \<Rightarrow> xs | _ \<Rightarrow> [])"

text \<open>
  The top-level structural checks of the validator: a non-null object whose
  \<^verbatim>\<open>restaurantName\<close> is a string and whose \<^verbatim>\<open>items\<close> is an array.
\<close>

definition topLevelOk :: "jsval \<Rightarrow> bool" where
  "topLevelOk data =
     (truthy data \<and> typeof data = TObject \<and> typeof (field data ''restaurantName'') = TString
      \<and> isArray (field data ''items''))"

text \<open>
  What decides acceptance below the top level: a text field is a string or falsy (then
  the default replaces it), an element of \<^verbatim>\<open>items\<close> is not \<open>null\<close>, and the coercion
  of each numeric field does not throw.
\<close>

definition stringOrFalsy :: "jsval \<Rightarrow> bool" where
  "stringOrFalsy v = (typeof v = TString \<or> \<not> truthy v)"

definition coercible :: "runtime \<Rightarrow> jsval \<Rightarrow> bool" where
  "coercible rt v = (ToNumber rt v \<noteq> None)"

definition itemRepairable :: "runtime \<Rightarrow> jsval \<Rightarrow> bool" where
  "itemRepairable rt item =
     (item \<noteq> Null \<and> item \<noteq> Undefined
      \<and> stringOrFalsy (field item ''id'') \<and> stringOrFalsy (field item ''description'')
      \<and> coercible rt (field item ''quantity'') \<and> coercible rt (field item ''price''))"

definition repairable :: "runtime \<Rightarrow> jsval \<Rightarrow> bool" where
  "repairable rt data =
     (stringOrFalsy (field data ''date'') \<and> stringOrFalsy (field data ''currency'')
      \<and> coercible rt (field data ''subtotal'') \<and> coercible rt (field data ''tax'')
      \<and> coercible rt (field data ''tip'') \<and> coercible rt (field data ''total'')
      \<and> list_all (itemRepairable rt) (elements (field data ''items'')))"

text \<open>
  The documented defaults of an item, in the specification's words: the id sanitized, or
  \<open>shared-<index>\<close> if absent; the quantity numeric-sanitized with default 1; the
  description sanitized with default \<open>Unknown Item\<close>; the price numeric-sanitized with
  default 0.  Numeric sanitization: coerce; if the coercion is \<open>0\<close> or NaN take the
  default; clamp to \<open>\<ge> 0\<close>.
\<close>

definition textOrDefault :: "jsval \<Rightarrow> jsstring \<Rightarrow> jsstring" where
  "textOrDefault v d = sanitizeString (case v of Str s \<Rightarrow> (if s = [] then d else s) | _ \<Rightarrow> d)"

definition coercedOr :: "runtime \<Rightarrow> jsval \<Rightarrow> number \<Rightarrow> number" where
  "coercedOr rt v d = (case ToNumber rt v of Some n \<Rightarrow> num_or n d | None \<Rightarrow> d)"

definition numberOrDefault :: "runtime \<Rightarrow> jsval \<Rightarrow> number \<Rightarrow> number" where
  "numberOrDefault rt v d = Math_max (Fin 0) (coercedOr rt v d)"

definition repairedItem :: "runtime \<Rightarrow> jsval \<Rightarrow> nat \<Rightarrow> ReceiptItem" where
  "repairedItem rt item idx =
     \<lparr>id' = textOrDefault (field item ''id'') (lit ''shared-'' @ natToString idx),
      quantity = numberOrDefault rt (field item ''quantity'') (Fin 1),
      description = textOrDefault (field item ''description'') (lit ''Unknown Item''),
      price = numberOrDefault rt (field item ''price'') (Fin 0)\<rparr>"

fun repairedItems :: "runtime \<Rightarrow> jsval list \<Rightarrow> nat \<Rightarrow> ReceiptItem list" where
  "repairedItems rt [] idx = []"
| "repairedItems rt (item # rest) idx = repairedItem rt item idx # repairedItems rt rest (Suc idx)"

text \<open>
  The receipt the validator returns for a document it accepts: the texts sanitized, with
  the defaults \<open>""\<close> for the date and \<open>$\<close> for the currency; the four amounts coerced
  with default 0; the items repaired.
\<close>

definition repairedReceipt :: "runtime \<Rightarrow> jsval \<Rightarrow> ReceiptData" where
  "repairedReceipt rt data =
     \<lparr>restaurantName = textOrDefault (field data ''restaurantName'') [],
      date = textOrDefault (field data ''date'') [],
      items = repairedItems rt (elements (field data ''items'')) 0,
      subtotal = coercedOr rt (field data ''subtotal'') (Fin 0),
      tax = coercedOr rt (field data ''tax'') (Fin 0),
      tip = coercedOr rt (field data ''tip'') (Fin 0),
      total = coercedOr rt (field data ''total'') (Fin 0),
      currency = textOrDefault (field data ''currency'') (lit ''$'')\<rparr>"

text \<open>
  The item prices and the total of a document as the validator reads them, whether or not
  it goes on to accept the document: the sum of the coerced and clamped prices of the
  elements of \<^verbatim>\<open>items\<close>, and the coerced total.
\<close>

definition statedItemsSum :: "runtime \<Rightarrow> jsval \<Rightarrow> number" where
  "statedItemsSum rt data =
     foldl (\<lambda>acc item. num_add acc (numberOrDefault rt (field item ''price'') (Fin 0))) (Fin 0)
       (elements (field data ''items''))"

definition statedTotal :: "runtime \<Rightarrow> jsval \<Rightarrow> number" where
  "statedTotal rt data = coercedOr rt (field data ''total'') (Fin 0)"

text \<open>
  A receipt that the validator leaves as it is: every text sanitizes to itself, ids,
  descriptions and the currency are not empty, every number is finite, quantities are
  positive and prices are not negative.
\<close>

definition stableText :: "jsstring \<Rightarrow> bool" where
  "stableText s = (sanitizeString s = s)"

definition stableItem :: "ReceiptItem \<Rightarrow> bool" where
  "stableItem i =
     (id' i \<noteq> [] \<and> stableText (id' i) \<and> description i \<noteq> [] \<and> stableText (description i)
      \<and> isFinite (quantity i) \<and> positive (quantity i)
      \<and> isFinite (price i) \<and> nonNegative (price i))"

definition stableReceipt :: "ReceiptData \<Rightarrow> bool" where
  "stableReceipt r =
     (stableText (restaurantName r) \<and> stableText (date r)
      \<and> currency r \<noteq> [] \<and> stableText (currency r)
      \<and> isFinite (subtotal r) \<and> isFinite (tax r) \<and> isFinite (tip r) \<and> isFinite (total r)
      \<and> list_all stableItem (items r))"

section \<open>A reference runtime\<close>

text \<open>
  The theorems below hold for every runtime.  For evaluating the program on concrete
  inputs, \<open>JS\<close> implements the runtime functions after their standards: UTF-8 (WHATWG
  Encoding), forgiving base64 (WHATWG Infra), percent-encoding, JSON and the conversion of
  strings to numbers (ECMA-262).  Numbers are exact: a decimal literal denotes its value,
  and a number prints in plain positional notation.
\<close>

subsection \<open>Code points and UTF-8\<close>

definition isHighSurrogate :: "codeunit \<Rightarrow> bool" where
  "isHighSurrogate c = (0xD800 \<le> c \<and> c \<le> 0xDBFF)"

definition isLowSurrogate :: "codeunit \<Rightarrow> bool" where
  "isLowSurrogate c = (0xDC00 \<le> c \<and> c \<le> 0xDFFF)"

definition isSurrogate :: "codeunit \<Rightarrow> bool" where
  "isSurrogate c = (0xD800 \<le> c \<and> c \<le> 0xDFFF)"

definition pairValue :: "codeunit \<Rightarrow> codeunit \<Rightarrow> nat" where
  "pairValue hi lo = 0x10000 + (unat hi - 0xD800) * 0x400 + (unat lo - 0xDC00)"

text \<open>
  The code points of a string; \<open>None\<close> stands for a surrogate that is not part of a pair.
\<close>

fun codePoints :: "jsstring \<Rightarrow> nat option list" where
  "codePoints [] = []"
| "codePoints [c] = [if isSurrogate c then None else Some (unat c)]"
| "codePoints (c # d # r) =
     (if isHighSurrogate c \<and> isLowSurrogate d then Some (pairValue c d) # codePoints r
      else (if isSurrogate c then None else Some (unat c)) # codePoints (d # r))"

definition utf16 :: "nat \<Rightarrow> jsstring" where
  "utf16 cp =
     (if cp < 0x10000 then [of_nat cp]
      else [of_nat (0xD800 + (cp - 0x10000) div 0x400), of_nat (0xDC00 + (cp - 0x10000) mod 0x400)])"

definition utf8 :: "nat \<Rightarrow> nat list" where
  "utf8 cp =
     (if cp < 0x80 then [cp]
      else if cp < 0x800 then [0xC0 + cp div 0x40, 0x80 + cp mod 0x40]
      else if cp < 0x10000 then
        [0xE0 + cp div 0x1000, 0x80 + cp div 0x40 mod 0x40, 0x80 + cp mod 0x40]
      else
        [0xF0 + cp div 0x40000, 0x80 + cp div 0x1000 mod 0x40, 0x80 + cp div 0x40 mod 0x40,
         0x80 + cp mod 0x40])"

text \<open>\<^verbatim>\<open>new TextEncoder().encode(s)\<close>: a lone surrogate is encoded as U+FFFD.\<close>

definition utf8_encode :: "jsstring \<Rightarrow> byte list" where
  "utf8_encode s =
     map of_nat (concat (map (\<lambda>cp. utf8 (case cp of Some v \<Rightarrow> v | None \<Rightarrow> 0xFFFD)) (codePoints s)))"

text \<open>
  The UTF-8 decoder with replacement.  The state is idle, or inside a sequence: the code
  point so far, the number of bytes still needed and the bounds of the next byte.
\<close>

datatype utf8_state = Idle | Pending nat nat nat nat

definition utf8_start :: "nat \<Rightarrow> nat + utf8_state" where
  "utf8_start b =
     (if b \<le> 0x7F then Inl b
      else if 0xC2 \<le> b \<and> b \<le> 0xDF then Inr (Pending (b mod 0x20) 1 0x80 0xBF)
      else if 0xE0 \<le> b \<and> b \<le> 0xEF then
        Inr (Pending (b mod 0x10) 2 (if b = 0xE0 then 0xA0 else 0x80) (if b = 0xED then 0x9F else 0xBF))
      else if 0xF0 \<le> b \<and> b \<le> 0xF4 then
        Inr (Pending (b mod 0x08) 3 (if b = 0xF0 then 0x90 else 0x80) (if b = 0xF4 then 0x8F else 0xBF))
      else Inl 0xFFFD)"

fun utf8_run :: "utf8_state \<Rightarrow> nat list \<Rightarrow> nat list" where
  "utf8_run Idle [] = []"
| "utf8_run (Pending cp n lo hi) [] = [0xFFFD]"
| "utf8_run Idle (b # r) =
     (case utf8_start b of Inl cp \<Rightarrow> cp # utf8_run Idle r | Inr st \<Rightarrow> utf8_run st r)"
| "utf8_run (Pending cp n lo hi) (b # r) =
     (if lo \<le> b \<and> b \<le> hi then
        (if n = 1 then (cp * 0x40 + b mod 0x40) # utf8_run Idle r
         else utf8_run (Pending (cp * 0x40 + b mod 0x40) (n - 1) 0x80 0xBF) r)
      else
        0xFFFD # (case utf8_start b of Inl c \<Rightarrow> c # utf8_run Idle r | Inr st \<Rightarrow> utf8_run st r))"

text \<open>
  \<^verbatim>\<open>new TextDecoder().decode(bytes)\<close>: not fatal, and a byte order mark at the start is
  dropped.
\<close>

definition utf8_decode :: "byte list \<Rightarrow> jsstring" where
  "utf8_decode bytes =
     concat (map utf16
       (case utf8_run Idle (map unat bytes) of
          [] \<Rightarrow> []
        | cp # cps \<Rightarrow> (if cp = 0xFEFF then cps else cp # cps)))"

subsection \<open>Base64\<close>

definition b64chars :: jsstring where
  "b64chars = lit ''ABCDEFGHIJKLMNOPQRSTUVWXYZabcdefghijklmnopqrstuvwxyz0123456789+/''"

definition b64char :: "nat \<Rightarrow> codeunit" where
  "b64char n = b64chars ! n"

definition b64val :: "codeunit \<Rightarrow> nat option" where
  "b64val c =
     (if 0x41 \<le> c \<and> c \<le> 0x5A then Some (unat c - 0x41)
      else if 0x61 \<le> c \<and> c \<le> 0x7A then Some (unat c - 0x61 + 26)
      else if 0x30 \<le> c \<and> c \<le> 0x39 then Some (unat c - 0x30 + 52)
      else if c = 0x2B then Some 62
      else if c = 0x2F then Some 63
      else None)"

fun b64encode :: "nat list \<Rightarrow> jsstring" where
  "b64encode [] = []"
| "b64encode [a] = [b64char (a div 4), b64char (a mod 4 * 16), 0x3D, 0x3D]"
| "b64encode [a, b] =
     [b64char (a div 4), b64char (a mod 4 * 16 + b div 16), b64char (b mod 16 * 4), 0x3D]"
| "b64encode (a # b # c # r) =
     b64char (a div 4) # b64char (a mod 4 * 16 + b div 16) # b64char (b mod 16 * 4 + c div 64)
       # b64char (c mod 64) # b64encode r"

fun b64decode :: "nat list \<Rightarrow> nat list" where
  "b64decode (a # b # c # d # r) =
     (a * 4 + b div 16) # (b mod 16 * 16 + c div 4) # (c mod 4 * 64 + d) # b64decode r"
| "b64decode [a, b, c] = [a * 4 + b div 16, b mod 16 * 16 + c div 4]"
| "b64decode [a, b] = [a * 4 + b div 16]"
| "b64decode r = []"

text \<open>\<^verbatim>\<open>btoa\<close>: an InvalidCharacterError when a code unit is above \<open>0xFF\<close>.\<close>

definition js_btoa :: "jsstring \<Rightarrow> jsstring option" where
  "js_btoa s = (if list_all (\<lambda>c. c \<le> 0xFF) s then Some (b64encode (map unat s)) else None)"

text \<open>
  \<^verbatim>\<open>atob\<close>, the forgiving base64 decoding: ASCII whitespace is removed; one or two
  \<open>=\<close> at the end are removed when the length is a multiple of four; a length of one
  more than a multiple of four, or a code unit outside the alphabet, fails.
\<close>

definition isAsciiWhitespace :: "codeunit \<Rightarrow> bool" where
  "isAsciiWhitespace c = (c = 0x09 \<or> c = 0x0A \<or> c = 0x0C \<or> c = 0x0D \<or> c = 0x20)"

definition stripPadding :: "jsstring \<Rightarrow> jsstring" where
  "stripPadding s =
     (if length s mod 4 = 0 then
        (case rev s of
           p # q # r \<Rightarrow> (if p = 0x3D then (if q = 0x3D then rev r else rev (q # r)) else s)
         | _ \<Rightarrow> s)
      else s)"

definition js_atob :: "jsstring \<Rightarrow> jsstring option" where
  "js_atob input =
     (let s = stripPadding (filter (\<lambda>c. \<not> isAsciiWhitespace c) input)
      in if length s mod 4 = 1 then None
         else if list_all (\<lambda>c. b64val c \<noteq> None) s
           then Some (map of_nat (b64decode (map (\<lambda>c. the (b64val c)) s)))
         else None)"

subsection \<open>Percent-encoding\<close>

definition hexDigits :: jsstring where
  "hexDigits = lit ''0123456789ABCDEF''"

definition hexVal :: "codeunit \<Rightarrow> nat option" where
  "hexVal c =
     (if 0x30 \<le> c \<and> c \<le> 0x39 then Some (unat c - 0x30)
      else if 0x41 \<le> c \<and> c \<le> 0x46 then Some (unat c - 0x41 + 10)
      else if 0x61 \<le> c \<and> c \<le> 0x66 then Some (unat c - 0x61 + 10)
      else None)"

definition isAlnum :: "codeunit \<Rightarrow> bool" where
  "isAlnum c =
     ((0x30 \<le> c \<and> c \<le> 0x39) \<or> (0x41 \<le> c \<and> c \<le> 0x5A) \<or> (0x61 \<le> c \<and> c \<le> 0x7A))"

text \<open>The characters \<^verbatim>\<open>encodeURIComponent\<close> leaves as they are: alphanumerics and \<^verbatim>\<open>-_.!~*'()\<close>.\<close>

definition isUnreserved :: "codeunit \<Rightarrow> bool" where
  "isUnreserved c = (isAlnum c \<or> c \<in> {0x2D, 0x5F, 0x2E, 0x21, 0x7E, 0x2A, 0x27, 0x28, 0x29})"

definition pct :: "nat \<Rightarrow> jsstring" where
  "pct b = [0x25, hexDigits ! (b div 16), hexDigits ! (b mod 16)]"

fun encodePoints :: "nat option list \<Rightarrow> jsstring option" where
  "encodePoints [] = Some []"
| "encodePoints (None # r) = None"
| "encodePoints (Some cp # r) =
     map_option
       (\<lambda>rest. (if cp < 0x80 \<and> isUnreserved (of_nat cp) then [of_nat cp] else concat (map pct (utf8 cp)))
                @ rest)
       (encodePoints r)"

text \<open>\<^verbatim>\<open>encodeURIComponent\<close>: a URIError on a lone surrogate.\<close>

definition js_encodeURIComponent :: "jsstring \<Rightarrow> jsstring option" where
  "js_encodeURIComponent s = encodePoints (codePoints s)"

text \<open>
  \<^verbatim>\<open>decodeURIComponent\<close>.  First the escapes are read: a \<open>%\<close> must be followed by two
  hexadecimal digits.  Then each byte of an escape that is not ASCII must start a
  well-formed UTF-8 sequence made of escapes; anything else is a URIError.
\<close>

datatype uri_token = Literal codeunit | Escaped nat | Malformed

fun uriTokens :: "jsstring \<Rightarrow> uri_token list" where
  "uriTokens [] = []"
| "uriTokens (c # h # l # r) =
     (if c = 0x25 then
        (case (hexVal h, hexVal l) of
           (Some a, Some b) \<Rightarrow> Escaped (16 * a + b) # uriTokens r
         | _ \<Rightarrow> [Malformed])
      else Literal c # uriTokens (h # l # r))"
| "uriTokens (c # r) = (if c = 0x25 then [Malformed] else Literal c # uriTokens r)"

definition isCont :: "nat \<Rightarrow> bool" where
  "isCont b = (0x80 \<le> b \<and> b \<le> 0xBF)"

fun decodeTokens :: "uri_token list \<Rightarrow> jsstring option" where
  "decodeTokens [] = Some []"
| "decodeTokens (Malformed # r) = None"
| "decodeTokens (Literal c # r) = map_option ((#) c) (decodeTokens r)"
| "decodeTokens (Escaped b # r) =
     (if b < 0x80 then map_option ((#) (of_nat b)) (decodeTokens r)
      else if 0xC2 \<le> b \<and> b \<le> 0xDF then
        (case r of
           Escaped b1 # r1 \<Rightarrow>
             (if isCont b1 then
                map_option ((@) (utf16 (b mod 0x20 * 0x40 + b1 mod 0x40))) (decodeTokens r1)
              else None)
         | _ \<Rightarrow> None)
      else if 0xE0 \<le> b \<and> b \<le> 0xEF then
        (case r of
           Escaped b1 # Escaped b2 # r2 \<Rightarrow>
             (let cp = (b mod 0x10 * 0x40 + b1 mod 0x40) * 0x40 + b2 mod 0x40
              in if isCont b1 \<and> isCont b2 \<and> 0x800 \<le> cp \<and> \<not> (0xD800 \<le> cp \<and> cp \<le> 0xDFFF)
                 then map_option ((@) (utf16 cp)) (decodeTokens r2)
                 else None)
         | _ \<Rightarrow> None)
      else if 0xF0 \<le> b \<and> b \<le> 0xF4 then
        (case r of
           Escaped b1 # Escaped b2 # Escaped b3 # r3 \<Rightarrow>
             (let cp = ((b mod 0x08 * 0x40 + b1 mod 0x40) * 0x40 + b2 mod 0x40) * 0x40 + b3 mod 0x40
              in if isCont b1 \<and> isCont b2 \<and> isCont b3 \<and> 0x10000 \<le> cp \<and> cp \<le> 0x10FFFF
                 then map_option ((@) (utf16 cp)) (decodeTokens r3)
                 else None)
         | _ \<Rightarrow> None)
      else None)"

definition js_decodeURIComponent :: "jsstring \<Rightarrow> jsstring option" where
  "js_decodeURIComponent s = decodeTokens (uriTokens s)"

subsection \<open>Numbers and text\<close>

definition isDigit :: "codeunit \<Rightarrow> bool" where
  "isDigit c = (0x30 \<le> c \<and> c \<le> 0x39)"

definition digitsValue :: "jsstring \<Rightarrow> nat" where
  "digitsValue ds = foldl (\<lambda>a c. 10 * a + (unat c - 0x30)) 0 ds"

text \<open>
  The digits of \<open>r\<close> (with \<open>0 \<le> r < 1\<close>) after the decimal point, at most as many
  as the fuel.
\<close>

fun fractionDigits :: "nat \<Rightarrow> real \<Rightarrow> jsstring" where
  "fractionDigits fuel r =
     (if fuel = 0 \<or> r = 0 then []
      else of_nat (0x30 + nat \<lfloor>r * 10\<rfloor>)
             # fractionDigits (fuel - 1) (r * 10 - of_int \<lfloor>r * 10\<rfloor>))"

declare fractionDigits.simps [simp del]

definition finiteToString :: "real \<Rightarrow> jsstring" where
  "finiteToString q =
     (let fraction = fractionDigits 1100 (\<bar>q\<bar> - of_int \<lfloor>\<bar>q\<bar>\<rfloor>)
      in (if q < 0 then [0x2D] else []) @ natToString (nat \<lfloor>\<bar>q\<bar>\<rfloor>)
         @ (if fraction = [] then [] else 0x2E # fraction))"

fun NumberToString :: "number \<Rightarrow> jsstring" where
  "NumberToString NaN = lit ''NaN''"
| "NumberToString PInf = lit ''Infinity''"
| "NumberToString NInf = lit ''-Infinity''"
| "NumberToString (Fin q) = finiteToString q"

text \<open>
  A decimal literal: digits, an optional fraction and an optional exponent.  The result
  is the integer digits, the fraction digits (\<open>None\<close> without a point), the exponent
  (\<open>None\<close> without one, else its sign and digits) and the rest of the text.
\<close>

definition scanDecimal ::
  "jsstring \<Rightarrow> jsstring \<times> jsstring option \<times> (bool \<times> jsstring) option \<times> jsstring" where
  "scanDecimal s =
     (let ip = takeWhile isDigit s;
          r1 = dropWhile isDigit s;
          (fp, r2) = (case r1 of
                        c # r \<Rightarrow> (if c = 0x2E then (Some (takeWhile isDigit r), dropWhile isDigit r)
                                  else (None, r1))
                      | [] \<Rightarrow> (None, r1));
          (ep, r3) = (case r2 of
                        e # r \<Rightarrow>
                          (if e = 0x65 \<or> e = 0x45 then
                             (case r of
                                g # r' \<Rightarrow>
                                  (if g = 0x2B \<or> g = 0x2D
                                   then (Some (g = 0x2D, takeWhile isDigit r'), dropWhile isDigit r')
                                   else (Some (False, takeWhile isDigit r), dropWhile isDigit r))
                              | [] \<Rightarrow> (Some (False, []), []))
                           else (None, r2))
                      | [] \<Rightarrow> (None, r2))
      in (ip, fp, ep, r3))"

definition decimalValue :: "jsstring \<Rightarrow> jsstring option \<Rightarrow> (bool \<times> jsstring) option \<Rightarrow> real" where
  "decimalValue ip fp ep =
     (let f = (case fp of Some ds \<Rightarrow> ds | None \<Rightarrow> []);
          m = of_nat (digitsValue (ip @ f)) / 10 ^ length f
      in case ep of
           None \<Rightarrow> m
         | Some (neg, ds) \<Rightarrow> (if neg then m / 10 ^ digitsValue ds else m * 10 ^ digitsValue ds))"

text \<open>
  \<^verbatim>\<open>Number(s)\<close> on a string: surrounding white space is dropped; the empty text is
  \<open>0\<close>; then a hexadecimal, octal or binary integer, or a signed decimal literal or
  \<open>Infinity\<close>; anything else is NaN.
\<close>

definition radixValue :: "nat \<Rightarrow> jsstring \<Rightarrow> number" where
  "radixValue base ds =
     (if ds \<noteq> [] \<and> list_all (\<lambda>c. case hexVal c of Some v \<Rightarrow> v < base | None \<Rightarrow> False) ds
      then Fin (of_nat (foldl (\<lambda>a c. base * a + the (hexVal c)) 0 ds))
      else NaN)"

definition unsignedDecimal :: "jsstring \<Rightarrow> number" where
  "unsignedDecimal s =
     (if s = lit ''Infinity'' then PInf
      else case scanDecimal s of
        (ip, fp, ep, rest) \<Rightarrow>
          (if rest = [] \<and> (ip \<noteq> [] \<or> (case fp of Some ds \<Rightarrow> ds \<noteq> [] | None \<Rightarrow> False))
              \<and> (case ep of Some (neg, ds) \<Rightarrow> ds \<noteq> [] | None \<Rightarrow> True)
           then Fin (decimalValue ip fp ep)
           else NaN))"

definition js_StringToNumber :: "jsstring \<Rightarrow> number" where
  "js_StringToNumber str =
     (case trim str of
        [] \<Rightarrow> Fin 0
      | c # r \<Rightarrow>
          (if c = 0x2B then unsignedDecimal r
           else if c = 0x2D then num_neg (unsignedDecimal r)
           else if c = 0x30 \<and> r \<noteq> [] \<and> (hd r = 0x78 \<or> hd r = 0x58) then radixValue 16 (tl r)
           else if c = 0x30 \<and> r \<noteq> [] \<and> (hd r = 0x6F \<or> hd r = 0x4F) then radixValue 8 (tl r)
           else if c = 0x30 \<and> r \<noteq> [] \<and> (hd r = 0x62 \<or> hd r = 0x42) then radixValue 2 (tl r)
           else unsignedDecimal (c # r)))"

text \<open>
  The text of a value, as \<^verbatim>\<open>Array.prototype.join\<close> and the conversion to a primitive
  need it.  An object that came out of \<^verbatim>\<open>JSON.parse\<close> has the methods of
  \<^verbatim>\<open>Object.prototype\<close> unless a property of its own hides them; such a property is not a
  function, so with an own \<^verbatim>\<open>toString\<close> the conversion is a TypeError (\<open>None\<close>).
\<close>

definition joinWith :: "jsstring \<Rightarrow> jsstring list \<Rightarrow> jsstring" where
  "joinWith sep parts = (case parts of [] \<Rightarrow> [] | p # ps \<Rightarrow> p @ concat (map ((@) sep) ps))"

fun js_ToString :: "jsval \<Rightarrow> jsstring option"
  and elementTexts :: "jsval list \<Rightarrow> jsstring list option" where
  "js_ToString Undefined = Some (lit ''undefined'')"
| "js_ToString Null = Some (lit ''null'')"
| "js_ToString (Bool b) = Some (if b then lit ''true'' else lit ''false'')"
| "js_ToString (Num n) = Some (NumberToString n)"
| "js_ToString (Str s) = Some s"
| "js_ToString (Arr xs) = map_option (joinWith [0x2C]) (elementTexts xs)"
| "js_ToString (Obj kvs) =
     (if map_of kvs (lit ''toString'') = None then Some (lit ''[object Object]'') else None)"
| "elementTexts [] = Some []"
| "elementTexts (x # xs) =
     (case (if x = Undefined \<or> x = Null then Some [] else js_ToString x) of
        None \<Rightarrow> None
      | Some t \<Rightarrow> map_option ((#) t) (elementTexts xs))"

definition js_ObjectToNumber :: "jsval \<Rightarrow> number option" where
  "js_ObjectToNumber v = map_option js_StringToNumber (js_ToString v)"

subsection \<open>JSON\<close>

definition hex4 :: "nat \<Rightarrow> jsstring" where
  "hex4 n =
     map (\<lambda>d. lit ''0123456789abcdef'' ! d) [n div 0x1000, n div 0x100 mod 0x10, n div 0x10 mod 0x10, n mod 0x10]"

definition escapeUnit :: "codeunit \<Rightarrow> jsstring" where
  "escapeUnit c =
     (if c = 0x08 then [0x5C, 0x62]
      else if c = 0x09 then [0x5C, 0x74]
      else if c = 0x0A then [0x5C, 0x6E]
      else if c = 0x0C then [0x5C, 0x66]
      else if c = 0x0D then [0x5C, 0x72]
      else if c = 0x22 then [0x5C, 0x22]
      else if c = 0x5C then [0x5C, 0x5C]
      else if c < 0x20 \<or> isSurrogate c then [0x5C, 0x75] @ hex4 (unat c)
      else [c])"

fun quoteUnits :: "jsstring \<Rightarrow> jsstring" where
  "quoteUnits [] = []"
| "quoteUnits [c] = escapeUnit c"
| "quoteUnits (c # d # r) =
     (if isHighSurrogate c \<and> isLowSurrogate d then c # d # quoteUnits r
      else escapeUnit c @ quoteUnits (d # r))"

definition quoteJSONString :: "jsstring \<Rightarrow> jsstring" where
  "quoteJSONString s = 0x22 # quoteUnits s @ [0x22]"

text \<open>
  \<^verbatim>\<open>JSON.stringify\<close>: a number that is not finite prints as \<open>null\<close>, an \<open>undefined\<close>
  element of an array as \<open>null\<close>, and an \<open>undefined\<close> property is left out.
\<close>

fun stringifyValue :: "jsval \<Rightarrow> jsstring"
  and stringifyElements :: "jsval list \<Rightarrow> jsstring list"
  and stringifyMembers :: "(jsstring \<times> jsval) list \<Rightarrow> jsstring list" where
  "stringifyValue Undefined = lit ''null''"
| "stringifyValue Null = lit ''null''"
| "stringifyValue (Bool b) = (if b then lit ''true'' else lit ''false'')"
| "stringifyValue (Num n) = (if isFinite n then NumberToString n else lit ''null'')"
| "stringifyValue (Str s) = quoteJSONString s"
| "stringifyValue (Arr xs) = 0x5B # joinWith [0x2C] (stringifyElements xs) @ [0x5D]"
| "stringifyValue (Obj kvs) = 0x7B # joinWith [0x2C] (stringifyMembers kvs) @ [0x7D]"
| "stringifyElements [] = []"
| "stringifyElements (x # xs) = stringifyValue x # stringifyElements xs"
| "stringifyMembers [] = []"
| "stringifyMembers ((k, v) # kvs) =
     (if v = Undefined then stringifyMembers kvs
      else (quoteJSONString k @ 0x3A # stringifyValue v) # stringifyMembers kvs)"

definition js_JSON_stringify :: "jsval \<Rightarrow> jsstring option" where
  "js_JSON_stringify v = (if v = Undefined then None else Some (stringifyValue v))"

text \<open>\<^verbatim>\<open>JSON.parse\<close>.  White space is space, tab, line feed and carriage return.\<close>

definition isJsonSpace :: "codeunit \<Rightarrow> bool" where
  "isJsonSpace c = (c = 0x20 \<or> c = 0x09 \<or> c = 0x0A \<or> c = 0x0D)"

definition skipSpace :: "jsstring \<Rightarrow> jsstring" where
  "skipSpace s = dropWhile isJsonSpace s"

definition simpleEscape :: "codeunit \<Rightarrow> codeunit option" where
  "simpleEscape e =
     (if e = 0x22 \<or> e = 0x5C \<or> e = 0x2F then Some e
      else if e = 0x62 then Some 0x08
      else if e = 0x66 then Some 0x0C
      else if e = 0x6E then Some 0x0A
      else if e = 0x72 then Some 0x0D
      else if e = 0x74 then Some 0x09
      else None)"

definition hexValue4 :: "codeunit \<Rightarrow> codeunit \<Rightarrow> codeunit \<Rightarrow> codeunit \<Rightarrow> codeunit option" where
  "hexValue4 a b c d =
     (case (hexVal a, hexVal b, hexVal c, hexVal d) of
        (Some w, Some x, Some y, Some z) \<Rightarrow> Some (of_nat (((w * 16 + x) * 16 + y) * 16 + z))
      | _ \<Rightarrow> None)"

text \<open>The text of a string literal behind its opening quote, and what follows the closing one.\<close>

fun parseStringBody :: "jsstring \<Rightarrow> (jsstring \<times> jsstring) option" where
  "parseStringBody [] = None"
| "parseStringBody (c # r) =
     (if c = 0x22 then Some ([], r)
      else if c = 0x5C then
        (case r of
           [] \<Rightarrow> None
         | e # r1 \<Rightarrow>
             (if e = 0x75 then
                (case r1 of
                   h1 # h2 # h3 # h4 # r2 \<Rightarrow>
                     (case hexValue4 h1 h2 h3 h4 of
                        Some u \<Rightarrow> map_option (\<lambda>(s, rest). (u # s, rest)) (parseStringBody r2)
                      | None \<Rightarrow> None)
                 | _ \<Rightarrow> None)
              else
                (case simpleEscape e of
                   Some u \<Rightarrow> map_option (\<lambda>(s, rest). (u # s, rest)) (parseStringBody r1)
                 | None \<Rightarrow> None)))
      else if c < 0x20 then None
      else map_option (\<lambda>(s, rest). (c # s, rest)) (parseStringBody r))"

text \<open>A JSON number: no leading zeros, digits on both sides of a point, digits in an exponent.\<close>

definition parseJsonNumber :: "jsstring \<Rightarrow> (number \<times> jsstring) option" where
  "parseJsonNumber s =
     (let neg = (s \<noteq> [] \<and> hd s = 0x2D)
      in case scanDecimal (if neg then tl s else s) of
           (ip, fp, ep, rest) \<Rightarrow>
             (if ip \<noteq> [] \<and> (length ip = 1 \<or> hd ip \<noteq> 0x30)
                 \<and> (case fp of Some ds \<Rightarrow> ds \<noteq> [] | None \<Rightarrow> True)
                 \<and> (case ep of Some (n, ds) \<Rightarrow> ds \<noteq> [] | None \<Rightarrow> True)
              then Some (Fin (if neg then - decimalValue ip fp ep else decimalValue ip fp ep), rest)
              else None))"

definition parseLiteral :: "jsstring \<Rightarrow> (jsval \<times> jsstring) option" where
  "parseLiteral s =
     (if take 4 s = lit ''true'' then Some (Bool True, drop 4 s)
      else if take 5 s = lit ''false'' then Some (Bool False, drop 5 s)
      else if take 4 s = lit ''null'' then Some (Null, drop 4 s)
      else map_option (\<lambda>(n, rest). (Num n, rest)) (parseJsonNumber s))"

text \<open>
  A property that occurs twice keeps its first place and takes the later value.
\<close>

fun setMember :: "jsstring \<Rightarrow> jsval \<Rightarrow> (jsstring \<times> jsval) list \<Rightarrow> (jsstring \<times> jsval) list" where
  "setMember k v [] = [(k, v)]"
| "setMember k v ((k', v') # kvs) =
     (if k' = k then (k, v) # kvs else (k', v') # setMember k v kvs)"

definition makeObject :: "(jsstring \<times> jsval) list \<Rightarrow> jsval" where
  "makeObject members = Obj (foldl (\<lambda>acc (k, v). setMember k v acc) [] members)"

text \<open>
  The recursive descent.  The first argument is fuel, a list as long as the text: every
  call below another has read a code unit of the text, so the fuel does not run out.
  \<open>parseElements\<close> reads the elements of an array behind \<open>[\<close> or a comma, up to the
  closing bracket; \<open>parseMembers\<close> does the same for an object.
\<close>

fun parseValue :: "'a list \<Rightarrow> jsstring \<Rightarrow> (jsval \<times> jsstring) option"
  and parseElements :: "'a list \<Rightarrow> jsstring \<Rightarrow> (jsval list \<times> jsstring) option"
  and parseMembers :: "'a list \<Rightarrow> jsstring \<Rightarrow> ((jsstring \<times> jsval) list \<times> jsstring) option" where
  "parseValue [] s = None"
| "parseValue (f # fuel) s =
     (case skipSpace s of
        [] \<Rightarrow> None
      | c # r \<Rightarrow>
          (if c = 0x5B then
             (case skipSpace r of
                [] \<Rightarrow> None
              | d # r1 \<Rightarrow>
                  (if d = 0x5D then Some (Arr [], r1)
                   else map_option (\<lambda>(xs, rest). (Arr xs, rest)) (parseElements fuel r)))
           else if c = 0x7B then
             (case skipSpace r of
                [] \<Rightarrow> None
              | d # r1 \<Rightarrow>
                  (if d = 0x7D then Some (Obj [], r1)
                   else map_option (\<lambda>(ms, rest). (makeObject ms, rest)) (parseMembers fuel r)))
           else if c = 0x22 then map_option (\<lambda>(t, rest). (Str t, rest)) (parseStringBody r)
           else parseLiteral (c # r)))"
| "parseElements [] s = None"
| "parseElements (f # fuel) s =
     (case parseValue fuel s of
        None \<Rightarrow> None
      | Some (v, r) \<Rightarrow>
          (case skipSpace r of
             [] \<Rightarrow> None
           | c # r1 \<Rightarrow>
               (if c = 0x2C then map_option (\<lambda>(xs, rest). (v # xs, rest)) (parseElements fuel r1)
                else if c = 0x5D then Some ([v], r1)
                else None)))"
| "parseMembers [] s = None"
| "parseMembers (f # fuel) s =
     (case skipSpace s of
        [] \<Rightarrow> None
      | q # r \<Rightarrow>
          (if q \<noteq> 0x22 then None
           else
             (case parseStringBody r of
                None \<Rightarrow> None
              | Some (k, r1) \<Rightarrow>
                  (case skipSpace r1 of
                     [] \<Rightarrow> None
                   | colon # r2 \<Rightarrow>
                       (if colon \<noteq> 0x3A then None
                        else
                          (case parseValue fuel r2 of
                             None \<Rightarrow> None
                           | Some (v, r3) \<Rightarrow>
                               (case skipSpace r3 of
                                  [] \<Rightarrow> None
                                | c # r4 \<Rightarrow>
                                    (if c = 0x2C then
                                       map_option (\<lambda>(ms, rest). ((k, v) # ms, rest))
                                         (parseMembers fuel r4)
                                     else if c = 0x7D then Some ([(k, v)], r4)
                                     else None))))))))"

definition js_JSON_parse :: "jsstring \<Rightarrow> jsval option" where
  "js_JSON_parse text =
     (case parseValue (0 # text) text of
        None \<Rightarrow> None
      | Some (v, rest) \<Rightarrow> (if skipSpace rest = [] then Some v else None))"

subsection \<open>The runtime\<close>

definition JS :: runtime where
  "JS =
     \<lparr>StringToNumber = js_StringToNumber,
      ObjectToNumber = js_ObjectToNumber,
      JSON_stringify = js_JSON_stringify,
      JSON_parse = js_JSON_parse,
      TextEncoder_encode = utf8_encode,
      TextDecoder_decode = utf8_decode,
      btoa = js_btoa,
      atob = js_atob,
      encodeURIComponent = js_encodeURIComponent,
      decodeURIComponent = js_decodeURIComponent\<rparr>"

section \<open>The share link: safeBtoa, safeAtob, generateShareLink, handleHashChange\<close>

text \<open>
  \<open>safeBtoa\<close>: the bytes of the UTF-8 encoding, each turned into the character of that
  code (the loop over \<^verbatim>\<open>String.fromCharCode(bytes[i])\<close>), then \<^verbatim>\<open>btoa\<close>; an
  exception gives the empty string.
\<close>

definition binaryString :: "byte list \<Rightarrow> jsstring" where
  "binaryString bytes = map (\<lambda>b. of_nat (unat b)) bytes"

definition safeBtoa :: "runtime \<Rightarrow> jsstring \<Rightarrow> jsstring" where
  "safeBtoa rt str =
     (let bytes = TextEncoder_encode rt str;
          binary = binaryString bytes
      in case btoa rt binary of Some b64 \<Rightarrow> b64 | None \<Rightarrow> [])"

text \<open>
  \<open>safeAtob\<close>: \<^verbatim>\<open>atob\<close>, each character's code stored into a \<^verbatim>\<open>Uint8Array\<close> (which
  keeps the code modulo 256), then the UTF-8 decoding; an exception gives the empty string.
\<close>

definition byteArray :: "jsstring \<Rightarrow> byte list" where
  "byteArray binary = map (\<lambda>c. of_nat (unat c mod 256)) binary"

definition safeAtob :: "runtime \<Rightarrow> jsstring \<Rightarrow> jsstring" where
  "safeAtob rt base64 =
     (case atob rt base64 of
        Some binary \<Rightarrow> TextDecoder_decode rt (byteArray binary)
      | None \<Rightarrow> [])"

text \<open>The object literal \<^verbatim>\<open>minifiedReceipt\<close> of \<open>generateShareLink\<close>.\<close>

definition minifiedItem :: "ReceiptItem \<Rightarrow> jsval" where
  "minifiedItem i =
     Obj [(lit ''id'', Str (id' i)), (lit ''quantity'', Num (quantity i)),
          (lit ''description'', Str (description i)), (lit ''price'', Num (price i))]"

definition minifiedReceipt :: "ReceiptData \<Rightarrow> jsval" where
  "minifiedReceipt receipt =
     Obj [(lit ''restaurantName'', Str (restaurantName receipt)),
          (lit ''date'', Str (date receipt)),
          (lit ''currency'', Str (currency receipt)),
          (lit ''subtotal'', Num (subtotal receipt)),
          (lit ''tax'', Num (tax receipt)),
          (lit ''tip'', Num (tip receipt)),
          (lit ''total'', Num (total receipt)),
          (lit ''items'', Arr (map minifiedItem (items receipt)))]"

text \<open>
  \<open>generateShareLink\<close>: the result is \<^verbatim>\<open>encoded\<close>, the part of the link behind the
  \<open>#\<close>; \<open>None\<close> when there is no receipt or a step throws (the \<^verbatim>\<open>catch\<close> shows an
  alert and no link is made).  The page's address before the \<open>#\<close> and the clipboard are
  not part of the model.
\<close>

definition generateShareLink :: "runtime \<Rightarrow> ReceiptData option \<Rightarrow> jsstring option" where
  "generateShareLink rt receipt =
     (case receipt of
        None \<Rightarrow> None
      | Some r \<Rightarrow>
          (case JSON_stringify rt (minifiedReceipt r) of
             None \<Rightarrow> None
           | Some json \<Rightarrow> encodeURIComponent rt (safeBtoa rt json)))"

text \<open>The state of the \<open>App\<close> component that the link handling reads and writes.\<close>

record App =
  appState :: AppState
  receipt :: "ReceiptData option"
  userSelections :: "(jsstring \<times> UserSelection) list"
  error :: "jsstring option"

text \<open>The \<^verbatim>\<open>catch\<close> block of \<open>handleHashChange\<close>.\<close>

definition linkInvalid :: "App \<Rightarrow> App" where
  "linkInvalid app =
     app\<lparr>error := Some (lit ''The shared link is invalid or has been tampered with.''),
         appState := HOME\<rparr>"

text \<open>
  \<open>handleHashChange\<close>; \<open>hash\<close> is \<^verbatim>\<open>window.location.hash.slice(1)\<close>, the part of the
  address behind the \<open>#\<close>.
\<close>

definition handleHashChange :: "runtime \<Rightarrow> jsstring \<Rightarrow> App \<Rightarrow> App" where
  "handleHashChange rt hash app =
     (if hash \<noteq> [] \<and> length hash > 10 then
        (case decodeURIComponent rt hash of
           None \<Rightarrow> linkInvalid app
         | Some b64 \<Rightarrow>
             (let jsonStr = safeAtob rt b64
              in if jsonStr \<noteq> [] then
                   (case JSON_parse rt jsonStr of
                      None \<Rightarrow> linkInvalid app
                    | Some rawData \<Rightarrow>
                        (case validateReceiptIntegrity rt rawData of
                           Some validated \<Rightarrow>
                             app\<lparr>receipt := Some validated, appState := CONFIRM_INFO, error := None\<rparr>
                         | None \<Rightarrow> linkInvalid app))
                 else app))
      else app)"

text \<open>
  What the standards of the runtime functions promise for the text of a JSON document,
  stage by stage: \<^verbatim>\<open>JSON.parse\<close> reads back what \<^verbatim>\<open>JSON.stringify\<close> wrote, the
  UTF-8 decoding gives back the encoded text, \<^verbatim>\<open>atob\<close> gives back what \<^verbatim>\<open>btoa\<close> was
  given, and \<^verbatim>\<open>decodeURIComponent\<close> gives back what \<^verbatim>\<open>encodeURIComponent\<close> was given;
  and the token has more than ten code units.
\<close>

definition runtimeRoundTrips :: "runtime \<Rightarrow> jsval \<Rightarrow> bool" where
  "runtimeRoundTrips rt v =
     (case JSON_stringify rt v of
        None \<Rightarrow> False
      | Some json \<Rightarrow>
          json \<noteq> [] \<and> JSON_parse rt json = Some v
          \<and> TextDecoder_decode rt (TextEncoder_encode rt json) = json
          \<and> (case btoa rt (binaryString (TextEncoder_encode rt json)) of
                None \<Rightarrow> False
              | Some b64 \<Rightarrow>
                  atob rt b64 = Some (binaryString (TextEncoder_encode rt json))
                  \<and> (case encodeURIComponent rt b64 of
                        None \<Rightarrow> False
                      | Some token \<Rightarrow>
                          length token > 10 \<and> decodeURIComponent rt token = Some b64)))"

section \<open>Example data\<close>

text \<open>
  The receipt of the specification's allocation example: items \<open>a\<close> (20) and \<open>b\<close> (10),
  subtotal 30, tax 3, tip 6; \<open>a\<close> is selected and split in two, \<open>b\<close> is not selected,
  and a third selection names an item \<open>zz\<close> that the receipt does not have.
\<close>

definition exampleReceipt :: ReceiptData where
  "exampleReceipt =
     \<lparr>restaurantName = lit ''Cafe'', date = lit ''2024-01-01'',
      items = [\<lparr>id' = lit ''a'', quantity = Fin 1, description = lit ''Pizza'', price = Fin 20\<rparr>,
               \<lparr>id' = lit ''b'', quantity = Fin 1, description = lit ''Tea'', price = Fin 10\<rparr>],
      subtotal = Fin 30, tax = Fin 3, tip = Fin 6, total = Fin 39, currency = lit ''$''\<rparr>"

definition selectionA :: UserSelection where
  "selectionA = \<lparr>itemId = lit ''a'', splitCount = Fin 2, isSelected = True\<rparr>"

definition selectionB :: UserSelection where
  "selectionB = \<lparr>itemId = lit ''b'', splitCount = Fin 1, isSelected = False\<rparr>"

definition selectionStale :: UserSelection where
  "selectionStale = \<lparr>itemId = lit ''zz'', splitCount = Fin 1, isSelected = True\<rparr>"

text \<open>
  A document with a negative subtotal, as a link can carry it:
  \<^verbatim>\<open>{"restaurantName":"R","subtotal":-5,"tax":2,"items":[{"id":"a","price":10}]}\<close>,
  the receipt the validator makes of it, and the selection of its item.
\<close>

definition negativeSubtotalDoc :: jsval where
  "negativeSubtotalDoc =
     Obj [(lit ''restaurantName'', Str (lit ''R'')), (lit ''subtotal'', Num (Fin (- 5))),
          (lit ''tax'', Num (Fin 2)),
          (lit ''items'', Arr [Obj [(lit ''id'', Str (lit ''a'')), (lit ''price'', Num (Fin 10))]])]"

definition negativeSubtotalReceipt :: ReceiptData where
  "negativeSubtotalReceipt =
     \<lparr>restaurantName = lit ''R'', date = [],
      items = [\<lparr>id' = lit ''a'', quantity = Fin 1, description = lit ''Unknown Item'',
                price = Fin 10\<rparr>],
      subtotal = Fin (- 5), tax = Fin 2, tip = Fin 0, total = Fin 0, currency = lit ''$''\<rparr>"

definition selectionWhole :: UserSelection where
  "selectionWhole = \<lparr>itemId = lit ''a'', splitCount = Fin 1, isSelected = True\<rparr>"

text \<open>
  A document whose item price is infinite, as \<^verbatim>\<open>JSON.parse\<close> reads
  \<^verbatim>\<open>{"restaurantName":"R","items":[{"id":"a","price":1e999}]}\<close>, and the receipt the
  validator makes of it.
\<close>

definition infinitePriceDoc :: jsval where
  "infinitePriceDoc =
     Obj [(lit ''restaurantName'', Str (lit ''R'')),
          (lit ''items'', Arr [Obj [(lit ''id'', Str (lit ''a'')), (lit ''price'', Num PInf)]])]"

definition infinitePriceReceipt :: ReceiptData where
  "infinitePriceReceipt =
     \<lparr>restaurantName = lit ''R'', date = [],
      items = [\<lparr>id' = lit ''a'', quantity = Fin 1, description = lit ''Unknown Item'',
                price = PInf\<rparr>],
      subtotal = Fin 0, tax = Fin 0, tip = Fin 0, total = Fin 0, currency = lit ''$''\<rparr>"

text \<open>
  A document whose only item has a number as its id:
  \<^verbatim>\<open>{"restaurantName":"R","items":[{"id":7,"quantity":1,"description":"Tea","price":3}]}\<close>.
\<close>

definition numericIdDoc :: jsval where
  "numericIdDoc =
     Obj [(lit ''restaurantName'', Str (lit ''R'')),
          (lit ''items'',
           Arr [Obj [(lit ''id'', Num (Fin 7)), (lit ''quantity'', Num (Fin 1)),
                     (lit ''description'', Str (lit ''Tea'')), (lit ''price'', Num (Fin 3))]])]"

text \<open>
  A document with two malformed items, an empty object and one whose fields are all of
  the wrong kind or out of range:
  \<^verbatim>\<open>{"restaurantName":"R","items":[{},{"id":"","quantity":"two","description":null,"price":-4}]}\<close>,
  and the receipt the validator makes of it.
\<close>

definition malformedItemsDoc :: jsval where
  "malformedItemsDoc =
     Obj [(lit ''restaurantName'', Str (lit ''R'')),
          (lit ''items'',
           Arr [Obj [],
                Obj [(lit ''id'', Str []), (lit ''quantity'', Str (lit ''two'')),
                     (lit ''description'', Null), (lit ''price'', Num (Fin (- 4)))]])]"

definition malformedItemsReceipt :: ReceiptData where
  "malformedItemsReceipt =
     \<lparr>restaurantName = lit ''R'', date = [],
      items = [\<lparr>id' = lit ''shared-0'', quantity = Fin 1, description = lit ''Unknown Item'',
                price = Fin 0\<rparr>,
               \<lparr>id' = lit ''shared-1'', quantity = Fin 1, description = lit ''Unknown Item'',
                price = Fin 0\<rparr>],
      subtotal = Fin 0, tax = Fin 0, tip = Fin 0, total = Fin 0, currency = lit ''$''\<rparr>"

text \<open>
  Two documents that pass the top-level checks and whose item prices sum to 10 while the
  total is 99.  The first has a number as the id of its item:
  \<^verbatim>\<open>{"restaurantName":"R","total":99,"items":[{"id":7,"price":10}]}\<close>.
  The second has \<open>null\<close> as its date and a string as the price:
  \<^verbatim>\<open>{"restaurantName":"R","date":null,"total":99,"items":[{"id":"a","price":"10"}]}\<close>;
  the validator makes the receipt \<open>mismatchReceipt\<close> of it.
\<close>

definition mismatchRejectedDoc :: jsval where
  "mismatchRejectedDoc =
     Obj [(lit ''restaurantName'', Str (lit ''R'')), (lit ''total'', Num (Fin 99)),
          (lit ''items'', Arr [Obj [(lit ''id'', Num (Fin 7)), (lit ''price'', Num (Fin 10))]])]"

definition mismatchDoc :: jsval where
  "mismatchDoc =
     Obj [(lit ''restaurantName'', Str (lit ''R'')), (lit ''date'', Null),
          (lit ''total'', Num (Fin 99)),
          (lit ''items'',
           Arr [Obj [(lit ''id'', Str (lit ''a'')), (lit ''price'', Str (lit ''10''))]])]"

definition mismatchReceipt :: ReceiptData where
  "mismatchReceipt =
     \<lparr>restaurantName = lit ''R'', date = [],
      items = [\<lparr>id' = lit ''a'', quantity = Fin 1, description = lit ''Unknown Item'',
                price = Fin 10\<rparr>],
      subtotal = Fin 0, tax = Fin 0, tip = Fin 0, total = Fin 99, currency = lit ''$''\<rparr>"

text \<open>
  A document with a negative quantity,
  \<^verbatim>\<open>{"restaurantName":"R","items":[{"id":"a","quantity":-3,"description":"x","price":1}]}\<close>,
  the receipt the validator makes of it (the quantity clamped to 0), and that receipt's
  JSON text, base64 text and link token.
\<close>

definition zeroQuantityDoc :: jsval where
  "zeroQuantityDoc =
     Obj [(lit ''restaurantName'', Str (lit ''R'')),
          (lit ''items'',
           Arr [Obj [(lit ''id'', Str (lit ''a'')), (lit ''quantity'', Num (Fin (- 3))),
                     (lit ''description'', Str (lit ''x'')), (lit ''price'', Num (Fin 1))]])]"

definition zeroQuantityReceipt :: ReceiptData where
  "zeroQuantityReceipt =
     \<lparr>restaurantName = lit ''R'', date = [],
      items = [\<lparr>id' = lit ''a'', quantity = Fin 0, description = lit ''x'', price = Fin 1\<rparr>],
      subtotal = Fin 0, tax = Fin 0, tip = Fin 0, total = Fin 0, currency = lit ''$''\<rparr>"

definition zeroQuantityJson :: jsstring where
  "zeroQuantityJson =
     lit ''{\"restaurantName\":\"R\",\"date\":\"\",\"currency\":\"$\",\"subtotal\":0,\"tax\":0,\"tip\":0,\"total\":0,\"items\":[{\"id\":\"a\",\"quantity\":0,\"description\":\"x\",\"price\":1}]}''"

definition zeroQuantityBase64 :: jsstring where
  "zeroQuantityBase64 =
     lit ''eyJyZXN0YXVyYW50TmFtZSI6IlIiLCJkYXRlIjoiIiwiY3VycmVuY3kiOiIkIiwic3VidG90YWwiOjAsInRheCI6MCwidGlwIjowLCJ0b3RhbCI6MCwiaXRlbXMiOlt7ImlkIjoiYSIsInF1YW50aXR5IjowLCJkZXNjcmlwdGlvbiI6IngiLCJwcmljZSI6MX1dfQ==''"

definition zeroQuantityToken :: jsstring where
  "zeroQuantityToken =
     lit ''eyJyZXN0YXVyYW50TmFtZSI6IlIiLCJkYXRlIjoiIiwiY3VycmVuY3kiOiIkIiwic3VidG90YWwiOjAsInRheCI6MCwidGlwIjowLCJ0b3RhbCI6MCwiaXRlbXMiOlt7ImlkIjoiYSIsInF1YW50aXR5IjowLCJkZXNjcmlwdGlvbiI6IngiLCJwcmljZSI6MX1dfQ%3D%3D''"

text \<open>
  A stable receipt with text outside ASCII (\<open>Caf\<close> and U+00E9, the currency U+20AC), and
  its JSON text (as code units), base64 text and link token.
\<close>

definition cafeReceipt :: ReceiptData where
  "cafeReceipt =
     \<lparr>restaurantName = lit ''Caf'' @ [0xE9], date = [],
      items = [\<lparr>id' = lit ''a'', quantity = Fin 2, description = lit ''Tea'', price = Fin (5 / 2)\<rparr>],
      subtotal = Fin (5 / 2), tax = Fin 0, tip = Fin 0, total = Fin (5 / 2), currency = [0x20AC]\<rparr>"

definition cafeJson :: jsstring where
  "cafeJson =
     lit ''{\"restaurantName\":\"Caf'' @ [0xE9] @ lit ''\",\"date\":\"\",\"currency\":\"'' @ [0x20AC]
       @ lit ''\",\"subtotal\":2.5,\"tax\":0,\"tip\":0,\"total\":2.5,\"items\":[{\"id\":\"a\",\"quantity\":2,\"description\":\"Tea\",\"price\":2.5}]}''"

definition cafeToken :: jsstring where
  "cafeToken =
     lit ''eyJyZXN0YXVyYW50TmFtZSI6IkNhZsOpIiwiZGF0ZSI6IiIsImN1cnJlbmN5Ijoi4oKsIiwic3VidG90YWwiOjIuNSwidGF4IjowLCJ0aXAiOjAsInRvdGFsIjoyLjUsIml0ZW1zIjpbeyJpZCI6ImEiLCJxdWFudGl0eSI6MiwiZGVzY3JpcHRpb24iOiJUZWEiLCJwcmljZSI6Mi41fV19''"

text \<open>
  Link tokens that fail at one stage each: base64 with characters outside its alphabet;
  a percent escape cut short; the base64 text of \<^verbatim>\<open>{"items":\<close>, which is not JSON; the
  base64 text of \<^verbatim>\<open>{"items":[]}\<close>, which the validator rejects.  And the state of the
  application on its summary screen, with the example receipt and no error.
\<close>

definition badBase64Hash :: jsstring where
  "badBase64Hash = lit ''!!!!!!!!!!!!''"

definition badEscapeHash :: jsstring where
  "badEscapeHash = lit ''eyJpdGVtcyI6W119%3''"

definition badJsonHash :: jsstring where
  "badJsonHash = lit ''eyJpdGVtcyI6''"

definition rejectedHash :: jsstring where
  "rejectedHash = lit ''eyJpdGVtcyI6W119''"

definition summaryApp :: App where
  "summaryApp =
     \<lparr>appState = SUMMARY, receipt = Some exampleReceipt,
      userSelections = [(lit ''a'', selectionA)], error = None\<rparr>"

section \<open>Facts about sanitizeString\<close>

lemma replaceTags_no_LT: "LT \<notin> set (replaceTags s)"
  by (induction s rule: replaceTags.induct) auto

lemma replaceTags_id: "LT \<notin> set s \<Longrightarrow> replaceTags s = s"
  by (induction s) auto

lemma set_trimEnd: "set (trimEnd s) \<subseteq> set s"
proof -
  have "set (dropWhile isWhiteSpace (rev s)) \<subseteq> set (rev s)"
    by (rule set_dropWhileD [THEN subsetI])
  then show ?thesis
    by (simp add: trimEnd_def)
qed

lemma set_trim: "set (trim s) \<subseteq> set s"
proof -
  have "set (trimStart s) \<subseteq> set s"
    unfolding trimStart_def by (rule set_dropWhileD [THEN subsetI])
  with set_trimEnd [of "trimStart s"] show ?thesis
    by (auto simp: trim_def)
qed

lemma set_sanitizeString: "set (sanitizeString s) \<subseteq> set (replaceTags s)"
proof -
  have "set (take 255 (trim (replaceTags s))) \<subseteq> set (trim (replaceTags s))"
    by (rule set_take_subset)
  with set_trim [of "replaceTags s"] show ?thesis
    by (auto simp: sanitizeString_def)
qed

lemma sanitizeString_no_LT: "LT \<notin> set (sanitizeString s)"
  using set_sanitizeString [of s] replaceTags_no_LT [of s] by auto

lemma trimStart_idem_hd: "s = [] \<or> \<not> isWhiteSpace (hd s) \<Longrightarrow> trimStart s = s"
  by (cases s) (auto simp: trimStart_def)

lemma trimEnd_idem_last: "s = [] \<or> \<not> isWhiteSpace (last s) \<Longrightarrow> trimEnd s = s"
proof (cases "rev s")
  case Nil
  then show ?thesis by (simp add: trimEnd_def)
next
  case (Cons a r)
  assume "s = [] \<or> \<not> isWhiteSpace (last s)"
  moreover from Cons have s: "s = rev r @ [a]" by (simp add: rev_swap)
  ultimately have "\<not> isWhiteSpace a" by simp
  then show ?thesis by (simp add: trimEnd_def s)
qed

lemma trimStart_hd: "trimStart s = [] \<or> \<not> isWhiteSpace (hd (trimStart s))"
  unfolding trimStart_def by (metis hd_dropWhile)

lemma trimEnd_last: "trimEnd s = [] \<or> \<not> isWhiteSpace (last (trimEnd s))"
proof (cases "dropWhile isWhiteSpace (rev s)")
  case Nil
  then show ?thesis by (simp add: trimEnd_def)
next
  case (Cons a r)
  then have "\<not> isWhiteSpace a" by (metis hd_dropWhile list.sel(1) list.distinct(1))
  with Cons show ?thesis by (simp add: trimEnd_def)
qed

lemma trimEnd_hd: "trimEnd s = [] \<or> hd (trimEnd s) = hd s"
proof (induction s)
  case Nil
  then show ?case by (simp add: trimEnd_def)
next
  case (Cons a s)
  show ?case
  proof (cases "dropWhile isWhiteSpace (rev s) = []")
    case True
    then show ?thesis by (simp add: trimEnd_def dropWhile_append)
  next
    case False
    then have "trimEnd (a # s) = a # trimEnd s"
      by (simp add: trimEnd_def dropWhile_append)
    then show ?thesis by simp
  qed
qed

lemma trim_hd: "trim s = [] \<or> \<not> isWhiteSpace (hd (trim s))"
  using trimEnd_hd [of "trimStart s"] trimStart_hd [of s]
  by (auto simp: trim_def trimEnd_def)

lemma trim_last: "trim s = [] \<or> \<not> isWhiteSpace (last (trim s))"
  using trimEnd_last [of "trimStart s"] by (simp add: trim_def)

lemma trimStart_take: "trimStart (take n (trim s)) = take n (trim s)"
proof (rule trimStart_idem_hd)
  show "take n (trim s) = [] \<or> \<not> isWhiteSpace (hd (take n (trim s)))"
    using trim_hd [of s] by (cases n; cases "trim s") auto
qed

lemma length_trimEnd: "length (trimEnd s) \<le> length s"
  by (simp add: trimEnd_def length_dropWhile_le [of isWhiteSpace "rev s", simplified])

lemma sanitizeString_twice: "sanitizeString (sanitizeString s) = trimEnd (sanitizeString s)"
proof -
  let ?t = "sanitizeString s"
  have "replaceTags ?t = ?t"
    by (rule replaceTags_id) (rule sanitizeString_no_LT)
  moreover have "trimStart ?t = ?t"
    unfolding sanitizeString_def by (rule trimStart_take)
  moreover have "length (trimEnd ?t) \<le> 255"
    using length_trimEnd [of ?t] by (simp add: sanitizeString_def)
  ultimately show ?thesis
    by (simp add: sanitizeString_def [of ?t] trim_def)
qed

lemma sanitizeString_short:
  assumes "length (trim (replaceTags s)) \<le> 255"
  shows "trimEnd (sanitizeString s) = sanitizeString s"
proof -
  from assms have "sanitizeString s = trim (replaceTags s)"
    by (simp add: sanitizeString_def)
  moreover have "trimEnd (trim (replaceTags s)) = trim (replaceTags s)"
    by (rule trimEnd_idem_last) (rule trim_last)
  ultimately show ?thesis by simp
qed

lemma isWhiteSpace_space: "isWhiteSpace 0x20"
  by (simp add: isWhiteSpace_def)

lemma not_isWhiteSpace_a: "\<not> isWhiteSpace 0x61"
  by (simp add: isWhiteSpace_def)

lemma not_isWhiteSpace_b: "\<not> isWhiteSpace 0x62"
  by (simp add: isWhiteSpace_def)

text \<open>
  The input \<open>a\<close>, 254 spaces, \<open>b\<close>: nothing to strip or trim, and the cut at 255 code
  units leaves \<open>a\<close> and the spaces.
\<close>

lemma sanitizeString_long:
  "sanitizeString (0x61 # replicate 254 0x20 @ [0x62]) = 0x61 # replicate 254 0x20"
proof -
  let ?s = "0x61 # replicate 254 0x20 @ [0x62 :: codeunit]"
  have "replaceTags ?s = ?s"
    by (rule replaceTags_id) (simp add: LT_def)
  moreover have "trimStart ?s = ?s"
    by (rule trimStart_idem_hd) (simp add: not_isWhiteSpace_a)
  moreover have "trimEnd ?s = ?s"
    by (rule trimEnd_idem_last) (simp add: not_isWhiteSpace_b)
  ultimately show ?thesis
    by (simp add: sanitizeString_def trim_def)
qed

lemma trimEnd_padded: "trimEnd (0x61 # replicate n 0x20) = [0x61]"
proof -
  have "dropWhile isWhiteSpace (replicate n 0x20 @ [0x61]) = [0x61]"
    by (simp add: dropWhile_append isWhiteSpace_space not_isWhiteSpace_a)
  then show ?thesis
    by (simp add: trimEnd_def)
qed

lemmas string_eval = lit_def cu_def LT_def GT_def isWhiteSpace_def trim_def trimStart_def
  trimEnd_def afterTag_def sanitizeString_def

section \<open>Claims about sanitizeString\<close>

text \<open>
  Claim C4, as the specification states it: for every string \<open>s\<close>,
  \<open>sanitizeString (sanitizeString s) = sanitizeString s\<close>.  This fails: the cut at 255
  code units comes after the trim, so it can leave white space at the end, which the
  second application trims.  For \<open>a\<close>, 254 spaces, \<open>b\<close> the first application gives \<open>a\<close>
  and 254 spaces, the second gives \<open>a\<close>.
\<close>

theorem sanitizeString_not_idempotent:
  "sanitizeString (sanitizeString (0x61 # replicate 254 0x20 @ [0x62]))
     \<noteq> sanitizeString (0x61 # replicate 254 0x20 @ [0x62])"
proof -
  let ?s = "0x61 # replicate 254 0x20 @ [0x62 :: codeunit]"
  have "sanitizeString (sanitizeString ?s) = trimEnd (sanitizeString ?s)"
    by (rule sanitizeString_twice)
  also have "\<dots> = [0x61]"
    unfolding sanitizeString_long by (rule trimEnd_padded)
  finally show ?thesis
    by (simp add: sanitizeString_long)
qed

text \<open>
  Claim C4, amended: for every string \<open>s\<close>, a second application of \<open>sanitizeString\<close>
  only removes white space from the end of the first result; it changes nothing when the
  stripped and trimmed text has at most 255 code units; and a third application changes
  nothing in any case.
\<close>

theorem sanitizeString_second_application:
  "sanitizeString (sanitizeString s) = trimEnd (sanitizeString s)
   \<and> (length (trim (replaceTags s)) \<le> 255
        \<longrightarrow> sanitizeString (sanitizeString s) = sanitizeString s)
   \<and> sanitizeString (sanitizeString (sanitizeString s)) = sanitizeString (sanitizeString s)"
proof (intro conjI impI)
  show tw: "sanitizeString (sanitizeString s) = trimEnd (sanitizeString s)"
    by (rule sanitizeString_twice)
  show "sanitizeString (sanitizeString s) = sanitizeString s"
    if "length (trim (replaceTags s)) \<le> 255"
    using that by (simp add: sanitizeString_twice sanitizeString_short)
  have "trimEnd (trimEnd (sanitizeString s)) = trimEnd (sanitizeString s)"
    by (rule trimEnd_idem_last) (rule trimEnd_last)
  moreover have "sanitizeString (sanitizeString (sanitizeString s))
      = trimEnd (sanitizeString (sanitizeString s))"
    by (rule sanitizeString_twice)
  ultimately show "sanitizeString (sanitizeString (sanitizeString s))
      = sanitizeString (sanitizeString s)"
    by (simp only: tw)
qed

text \<open>The amended claim at \<open>" <b>Tea</b> <i"\<close>, which sanitizes to \<open>"Tea"\<close>.\<close>

theorem sanitizeString_second_application_witness:
  "length (trim (replaceTags (lit '' <b>Tea</b> <i''))) \<le> 255
   \<and> sanitizeString (lit '' <b>Tea</b> <i'') = lit ''Tea''
   \<and> sanitizeString (sanitizeString (lit '' <b>Tea</b> <i'')) = lit ''Tea''"
proof -
  have len: "length (trim (replaceTags (lit '' <b>Tea</b> <i''))) \<le> 255"
    by (simp add: string_eval)
  have first: "sanitizeString (lit '' <b>Tea</b> <i'') = lit ''Tea''"
    by (simp add: string_eval)
  from sanitizeString_second_application [of "lit '' <b>Tea</b> <i''"] len
  have "sanitizeString (sanitizeString (lit '' <b>Tea</b> <i''))
      = sanitizeString (lit '' <b>Tea</b> <i'')"
    by blast
  with len first show ?thesis by simp
qed

text \<open>
  Claim C9: for every string \<open>s\<close>, the length of \<open>sanitizeString s\<close> is at most 255 code
  units.
\<close>

theorem sanitizeString_length: "length (sanitizeString s) \<le> 255"
  by (simp add: sanitizeString_def)

text \<open>
  Claim C10: for every string \<open>s\<close>, \<open>sanitizeString s\<close> contains no \<open><\<close>.  Every \<open><\<close> of
  the input starts a match of the pattern or lies inside one, and the trim and the cut
  add nothing.  Every text of a validated receipt is a result of \<open>sanitizeString\<close>, so
  none holds a \<open><\<close> (\<open>validated_texts_without_LT\<close> below).
\<close>

theorem sanitizeString_strips_LT: "LT \<notin> set (sanitizeString s)"
proof -
  have "LT \<notin> set (replaceTags s)"
    by (rule replaceTags_no_LT)
  moreover have "set (sanitizeString s) \<subseteq> set (replaceTags s)"
    by (rule set_sanitizeString)
  ultimately show ?thesis by blast
qed

section \<open>Facts about the numbers and the allocation\<close>

lemma num_add_zero_right: "num_add x (Fin 0) = x"
  by (cases x) auto

lemma num_add_zero_left: "num_add (Fin 0) x = x"
  by (cases x) auto

lemma num_add_assoc: "num_add (num_add x y) z = num_add x (num_add y z)"
  by (cases x; cases y; cases z) auto

lemma addShare_spec: "addShare r acc sel = num_add acc (spec_share r sel)"
  by (simp add: addShare_def spec_share_def num_add_zero_right split: option.splits)

lemma foldl_addShare:
  "foldl (addShare r) a sels = num_add a (sum_numbers (map (spec_share r) sels))"
  by (induction sels arbitrary: a) (auto simp: addShare_spec num_add_zero_right num_add_assoc)

lemma foldl_prices:
  "foldl (\<lambda>acc item. num_add acc (price item)) a its = num_add a (sum_numbers (map price its))"
  by (induction its arbitrary: a) (auto simp: num_add_zero_right num_add_assoc)

lemma num_or_zero: "n \<noteq> NaN \<Longrightarrow> num_or n (Fin 0) = n"
  by (auto simp: num_or_def truthyNum_def)

lemma num_or_subtotal:
  "nonNegative s \<Longrightarrow> num_or s x = (if positive s then s else x)"
  by (cases s) (auto simp: num_or_def truthyNum_def)

text \<open>
  On a receipt whose subtotal is not negative and whose tax and tip are not NaN, the
  allocation is the one the specification describes.
\<close>

lemma calculations_meets_spec:
  assumes "nonNegative (subtotal r)" and "tax r \<noteq> NaN" and "tip r \<noteq> NaN"
  shows "calculations (Some r) sels = spec_allocation r (Object_values sels)"
  using assms
  by (simp add: calculations_def spec_allocation_def spec_ratio_def spec_receiptSubtotal_def
      spec_claimedSubtotal_def foldl_addShare foldl_prices num_add_zero_left num_or_zero
      num_or_subtotal Let_def)

lemma addShare_stale:
  "find (\<lambda>i. id' i = itemId sel) (items r) = None \<Longrightarrow> addShare r acc sel = acc"
  by (simp add: addShare_def)

lemmas allocation_eval = calculations_def Object_values_def addShare_def num_or_def truthyNum_def
  lit_def cu_def Let_def

section \<open>Claims about the allocation\<close>

text \<open>
  Claim C8: for every receipt and every selection map, a selection whose \<open>itemId\<close> is
  the id of no item of the receipt contributes nothing: the allocation is the one
  computed with that selection removed, wherever it stands in the map.
\<close>

theorem stale_selection_contributes_nothing:
  assumes "itemId sel \<notin> set (map id' (items r))"
  shows "calculations (Some r) (before @ (k, sel) # after)
           = calculations (Some r) (before @ after)"
proof -
  from assms have "find (\<lambda>i. id' i = itemId sel) (items r) = None"
    by (force simp: find_None_iff)
  then have "foldl (addShare r) a (filter isSelected (xs @ sel # ys))
      = foldl (addShare r) a (filter isSelected (xs @ ys))" for a xs ys
    by (simp add: addShare_stale)
  then show ?thesis
    by (simp add: calculations_def Object_values_def)
qed

text \<open>
  The claim on the specification's example receipt, with the stale selection \<open>zz\<close>
  between the selections of \<open>a\<close> and \<open>b\<close>: subtotal 10, ratio 1/3, tax 1, tip 2, total 13.
\<close>

theorem stale_selection_contributes_nothing_witness:
  "itemId selectionStale \<notin> set (map id' (items exampleReceipt))
   \<and> calculations (Some exampleReceipt)
        [(lit ''a'', selectionA), (lit ''zz'', selectionStale), (lit ''b'', selectionB)]
      = calculations (Some exampleReceipt) [(lit ''a'', selectionA), (lit ''b'', selectionB)]
   \<and> calculations (Some exampleReceipt) [(lit ''a'', selectionA), (lit ''b'', selectionB)]
      = \<lparr>userSubtotal = Fin 10, userTax = Fin 1, userTip = Fin 2, userTotal = Fin 13,
         userRatio = Fin (1 / 3)\<rparr>"
proof -
  have stale: "itemId selectionStale \<notin> set (map id' (items exampleReceipt))"
    by (simp add: selectionStale_def exampleReceipt_def lit_def cu_def)
  have "calculations (Some exampleReceipt)
          ([(lit ''a'', selectionA)] @ (lit ''zz'', selectionStale) # [(lit ''b'', selectionB)])
        = calculations (Some exampleReceipt) ([(lit ''a'', selectionA)] @ [(lit ''b'', selectionB)])"
    using stale by (rule stale_selection_contributes_nothing)
  moreover have "calculations (Some exampleReceipt) [(lit ''a'', selectionA), (lit ''b'', selectionB)]
      = \<lparr>userSubtotal = Fin 10, userTax = Fin 1, userTip = Fin 2, userTotal = Fin 13,
         userRatio = Fin (1 / 3)\<rparr>"
    by (simp add: allocation_eval exampleReceipt_def selectionA_def selectionB_def)
  ultimately show ?thesis
    using stale by simp
qed

section \<open>Facts about the validator\<close>

lemma getProp_field: "v \<noteq> Null \<Longrightarrow> v \<noteq> Undefined \<Longrightarrow> getProp v (lit k) = Some (field v k)"
  by (cases v) (auto simp: field_def)

lemma sanitize_val_or:
  "sanitizeString_any (val_or v (Str d))
     = (if stringOrFalsy v then Some (textOrDefault v d) else None)"
  by (cases v) (auto simp: val_or_def stringOrFalsy_def textOrDefault_def)

lemma clampedNumberOr_char:
  "clampedNumberOr rt v d = (if coercible rt v then Some (numberOrDefault rt v d) else None)"
  by (cases "ToNumber rt v")
    (auto simp: clampedNumberOr_def coercible_def numberOrDefault_def coercedOr_def)

lemma numberOr_char:
  "numberOr rt v d = (if coercible rt v then Some (coercedOr rt v d) else None)"
  by (cases "ToNumber rt v") (auto simp: numberOr_def coercible_def coercedOr_def)

lemma sanitizeItem_char:
  "sanitizeItem rt item idx
     = (if itemRepairable rt item then Some (repairedItem rt item idx) else None)"
proof (cases "item = Null \<or> item = Undefined")
  case True
  then show ?thesis
    by (auto simp: sanitizeItem_def itemRepairable_def)
next
  case False
  then show ?thesis
    by (simp add: sanitizeItem_def itemRepairable_def repairedItem_def getProp_field
        sanitize_val_or clampedNumberOr_char)
qed

lemma mapItems_char:
  "mapItems rt xs idx
     = (if list_all (itemRepairable rt) xs then Some (repairedItems rt xs idx) else None)"
  by (induction xs arbitrary: idx) (auto simp: sanitizeItem_char)

lemma topLevelOk_props:
  assumes "topLevelOk d"
  shows "d \<noteq> Null" and "d \<noteq> Undefined" and "truthy d" and "typeof d = TObject"
    and "\<exists>s. field d ''restaurantName'' = Str s" and "\<exists>xs. field d ''items'' = Arr xs"
proof -
  from assms show "d \<noteq> Null" "d \<noteq> Undefined" "truthy d" "typeof d = TObject"
    by (auto simp: topLevelOk_def)
  from assms have "typeof (field d ''restaurantName'') = TString"
    by (simp add: topLevelOk_def)
  then show "\<exists>s. field d ''restaurantName'' = Str s"
    by (cases "field d ''restaurantName''") auto
  from assms have "isArray (field d ''items'')"
    by (simp add: topLevelOk_def)
  then show "\<exists>xs. field d ''items'' = Arr xs"
    by (cases "field d ''items''") auto
qed

text \<open>What the validator returns for a document that passes the top-level checks.\<close>

lemma validate_char:
  assumes "topLevelOk d"
  shows "validateReceiptIntegrity rt d
           = (if repairable rt d then Some (repairedReceipt rt d) else None)"
proof -
  from topLevelOk_props [OF assms] obtain s xs
    where nn: "d \<noteq> Null" "d \<noteq> Undefined" and t: "truthy d" "typeof d = TObject"
      and s: "field d ''restaurantName'' = Str s" and xs: "field d ''items'' = Arr xs"
    by blast
  have name: "textOrDefault (Str s) [] = sanitizeString s"
    by (simp add: textOrDefault_def)
  show ?thesis
    by (simp add: validateReceiptIntegrity_def t getProp_field [OF nn] s xs sanitize_val_or
        numberOr_char mapItems_char repairable_def repairedReceipt_def elements_def name Let_def)
qed

lemma validate_rejects_top: "\<not> topLevelOk d \<Longrightarrow> validateReceiptIntegrity rt d = None"
proof (cases "d = Null \<or> d = Undefined")
  case True
  then show ?thesis by (auto simp: validateReceiptIntegrity_def)
next
  case False
  assume "\<not> topLevelOk d"
  with False show ?thesis
    by (auto simp: validateReceiptIntegrity_def topLevelOk_def getProp_field)
qed

lemma validate_Some:
  assumes "validateReceiptIntegrity rt d = Some r"
  shows "topLevelOk d" and "repairable rt d" and "r = repairedReceipt rt d"
proof -
  show top: "topLevelOk d"
    using assms validate_rejects_top [of d rt] by (cases "topLevelOk d") auto
  from assms validate_char [OF top, of rt] show "repairable rt d"
    by (cases "repairable rt d") auto
  from assms validate_char [OF top, of rt] show "r = repairedReceipt rt d"
    by (cases "repairable rt d") auto
qed

lemma coercedOr_not_NaN: "d \<noteq> NaN \<Longrightarrow> coercedOr rt v d \<noteq> NaN"
  by (cases "ToNumber rt v") (auto simp: coercedOr_def num_or_def truthyNum_def)

lemma Math_max_nonNegative: "n \<noteq> NaN \<Longrightarrow> nonNegative (Math_max (Fin 0) n)"
  by (cases n) auto

lemma numberOrDefault_nonNegative: "d \<noteq> NaN \<Longrightarrow> nonNegative (numberOrDefault rt v d)"
  by (simp add: numberOrDefault_def Math_max_nonNegative coercedOr_not_NaN)

lemma repairedItems_nonNegative:
  "list_all (\<lambda>i. nonNegative (quantity i) \<and> nonNegative (price i)) (repairedItems rt xs idx)"
  by (induction xs arbitrary: idx) (auto simp: repairedItem_def numberOrDefault_nonNegative)

lemma repairedReceipt_numbersValid: "numbersValid (repairedReceipt rt d)"
  by (simp add: numbersValid_def repairedReceipt_def isNaN_def coercedOr_not_NaN
      repairedItems_nonNegative)

text \<open>Every text of a receipt the validator returns went through \<open>sanitizeString\<close>.\<close>

lemma textOrDefault_no_LT: "LT \<notin> set (textOrDefault v d)"
  by (simp add: textOrDefault_def sanitizeString_no_LT)

lemma repairedItems_no_LT:
  "list_all (\<lambda>i. LT \<notin> set (id' i) \<and> LT \<notin> set (description i)) (repairedItems rt xs idx)"
  by (induction xs arbitrary: idx) (auto simp: repairedItem_def textOrDefault_no_LT)

lemma validated_texts_without_LT:
  assumes "validateReceiptIntegrity rt d = Some r"
  shows "textsWithoutLT r"
proof -
  from assms have "r = repairedReceipt rt d"
    by (rule validate_Some(3))
  then show ?thesis
    by (simp add: textsWithoutLT_def repairedReceipt_def textOrDefault_no_LT repairedItems_no_LT)
qed

text \<open>
  The sum the validator computes over the sanitized items is the sum of the prices as it
  read them from the document.
\<close>

lemma foldl_repairedItems_prices:
  "foldl (\<lambda>acc item. num_add acc (price item)) a (repairedItems rt xs idx)
     = foldl (\<lambda>acc item. num_add acc (numberOrDefault rt (field item ''price'') (Fin 0))) a xs"
  by (induction xs arbitrary: a idx) (simp_all add: repairedItem_def)

lemma itemsSum_repairedReceipt: "itemsSum (repairedReceipt rt d) = statedItemsSum rt d"
  by (simp add: itemsSum_def statedItemsSum_def repairedReceipt_def foldl_repairedItems_prices)

lemma total_repairedReceipt: "total (repairedReceipt rt d) = statedTotal rt d"
  by (simp add: statedTotal_def repairedReceipt_def)

text \<open>
  The allocation on a validated receipt is the one the specification describes, unless
  the subtotal is negative.
\<close>

lemma calculations_meets_spec_validated:
  assumes "validateReceiptIntegrity rt d = Some r" and "nonNegative (subtotal r)"
  shows "calculations (Some r) sels = spec_allocation r (Object_values sels)"
proof -
  from validate_Some(3) [OF assms(1)] have "numbersValid r"
    by (simp add: repairedReceipt_numbersValid)
  then have "tax r \<noteq> NaN" and "tip r \<noteq> NaN"
    by (simp_all add: numbersValid_def isNaN_def)
  with assms(2) show ?thesis
    by (rule calculations_meets_spec)
qed

lemmas validator_eval = validateReceiptIntegrity_def sanitizeItem_def numberOr_def
  clampedNumberOr_def val_or_def num_or_def truthyNum_def itemsSum_def natToString.simps
  string_eval Let_def

lemmas document_eval = field_def elements_def topLevelOk_def repairable_def itemRepairable_def
  stringOrFalsy_def coercible_def statedItemsSum_def statedTotal_def numberOrDefault_def
  coercedOr_def num_or_def truthyNum_def lit_def cu_def

lemmas number_text_eval = isDigit_def digitsValue_def finiteToString_def scanDecimal_def
  decimalValue_def radixValue_def unsignedDecimal_def js_StringToNumber_def hexVal_def
  fractionDigits.simps

text \<open>The validator on the example documents.\<close>

lemma validate_negativeSubtotalDoc:
  "validateReceiptIntegrity rt negativeSubtotalDoc = Some negativeSubtotalReceipt"
  by (simp add: validator_eval negativeSubtotalDoc_def negativeSubtotalReceipt_def)

lemma validate_infinitePriceDoc:
  "validateReceiptIntegrity rt infinitePriceDoc = Some infinitePriceReceipt"
  by (simp add: validator_eval infinitePriceDoc_def infinitePriceReceipt_def)

lemma validate_numericIdDoc: "validateReceiptIntegrity rt numericIdDoc = None"
  by (simp add: validator_eval numericIdDoc_def)

lemma validate_malformedItemsDoc:
  "validateReceiptIntegrity JS malformedItemsDoc = Some malformedItemsReceipt"
  by (simp add: validator_eval malformedItemsDoc_def malformedItemsReceipt_def JS_def
      number_text_eval)

lemma validate_mismatchRejectedDoc: "validateReceiptIntegrity rt mismatchRejectedDoc = None"
  by (simp add: validator_eval mismatchRejectedDoc_def)

lemma validate_mismatchDoc: "validateReceiptIntegrity JS mismatchDoc = Some mismatchReceipt"
  by (simp add: validator_eval mismatchDoc_def mismatchReceipt_def JS_def number_text_eval)

section \<open>Claims about the validator\<close>

text \<open>
  Claim C2, as the specification states it: every numeric field of a receipt the
  validator returns is finite and not negative.  This fails: nothing in the validator
  tests for infinity.  \<^verbatim>\<open>JSON.parse\<close> reads \<open>1e999\<close> as \<open>Infinity\<close>, which is truthy
  and is its own maximum with \<open>0\<close>, so the item's price stays infinite.
\<close>

theorem validated_price_infinite:
  "validateReceiptIntegrity JS infinitePriceDoc = Some infinitePriceReceipt
   \<and> \<not> numbersFiniteNonNegative infinitePriceReceipt"
proof -
  have "\<not> numbersFiniteNonNegative infinitePriceReceipt"
    by (simp add: numbersFiniteNonNegative_def finiteNonNegative_def infinitePriceReceipt_def)
  then show ?thesis
    by (simp add: validate_infinitePriceDoc)
qed

text \<open>
  Claim C2, amended: for every input the validator accepts, with any runtime, no numeric
  field of the receipt is NaN (or undefined: the fields are numbers), and each item's
  quantity and price are not negative; they may be \<open>+Infinity\<close>.
\<close>

theorem validated_numbers:
  assumes "validateReceiptIntegrity rt d = Some r"
  shows "numbersValid r"
proof -
  from assms have "r = repairedReceipt rt d"
    by (rule validate_Some(3))
  then show ?thesis
    by (simp add: repairedReceipt_numbersValid)
qed

theorem validated_numbers_witness:
  "validateReceiptIntegrity JS negativeSubtotalDoc = Some negativeSubtotalReceipt
   \<and> numbersValid negativeSubtotalReceipt"
proof -
  have v: "validateReceiptIntegrity JS negativeSubtotalDoc = Some negativeSubtotalReceipt"
    by (rule validate_negativeSubtotalDoc)
  from v have "numbersValid negativeSubtotalReceipt"
    by (rule validated_numbers)
  with v show ?thesis by simp
qed

text \<open>
  Claim C5, as the specification states it: an input that passes the top-level checks is
  never rejected, an item with a wrongly typed id, quantity, description or price being
  repaired.  This fails: \<open>sanitizeString\<close> is called on whatever truthy value the id
  holds, and on a number the call of \<^verbatim>\<open>replace\<close> is a TypeError, which the \<^verbatim>\<open>catch\<close>
  turns into the rejection of the whole document.
\<close>

theorem numeric_id_rejected:
  "topLevelOk numericIdDoc \<and> validateReceiptIntegrity JS numericIdDoc = None"
proof -
  have "topLevelOk numericIdDoc"
    by (simp add: document_eval numericIdDoc_def)
  then show ?thesis
    by (simp add: validate_numericIdDoc)
qed

text \<open>
  Claim C5, amended: an input that passes the top-level checks is rejected exactly when
  its date or currency, or the id or description of an item, is a truthy value that is
  not a string, or an item is \<open>null\<close>, or the coercion of a numeric field throws.
  Otherwise the validator returns the receipt with every item repaired by the documented
  defaults: a missing or falsy id becomes \<open>shared-<index>\<close>, a missing, zero or
  non-numeric quantity 1, a missing or falsy description \<open>Unknown Item\<close>, a missing or
  non-numeric price 0, and a negative quantity or price 0.
\<close>

theorem validate_after_top_level:
  assumes "topLevelOk d"
  shows "validateReceiptIntegrity rt d
           = (if repairable rt d then Some (repairedReceipt rt d) else None)"
  using assms by (rule validate_char)

theorem validate_after_top_level_witness:
  "topLevelOk malformedItemsDoc \<and> repairable JS malformedItemsDoc
   \<and> validateReceiptIntegrity JS malformedItemsDoc = Some malformedItemsReceipt
   \<and> repairedReceipt JS malformedItemsDoc = malformedItemsReceipt"
proof -
  have top: "topLevelOk malformedItemsDoc"
    by (simp add: document_eval malformedItemsDoc_def)
  have rep: "repairable JS malformedItemsDoc"
    by (simp add: document_eval malformedItemsDoc_def JS_def)
  from validate_after_top_level [OF top, of JS] rep
  have "validateReceiptIntegrity JS malformedItemsDoc = Some (repairedReceipt JS malformedItemsDoc)"
    by simp
  with top rep show ?thesis
    by (simp add: validate_malformedItemsDoc)
qed

text \<open>
  Claim C7, as the specification states it: every structurally well-formed input whose
  item prices sum to a value different from its total is accepted.  Structural validity
  is, in the specification, the top-level checks (a non-null object with a string name
  and an array of items).  Read so, the claim fails, though not through the totals: the
  document below passes the top-level checks, its prices sum to 10 and its total is 99,
  and it is rejected because the id of its item is a number.
\<close>

theorem mismatch_with_numeric_id_rejected:
  "topLevelOk mismatchRejectedDoc
   \<and> statedItemsSum JS mismatchRejectedDoc = Fin 10 \<and> statedTotal JS mismatchRejectedDoc = Fin 99
   \<and> validateReceiptIntegrity JS mismatchRejectedDoc = None"
proof -
  have "topLevelOk mismatchRejectedDoc"
    by (simp add: document_eval mismatchRejectedDoc_def)
  moreover have "statedItemsSum JS mismatchRejectedDoc = Fin 10"
    by (simp add: document_eval mismatchRejectedDoc_def)
  moreover have "statedTotal JS mismatchRejectedDoc = Fin 99"
    by (simp add: document_eval mismatchRejectedDoc_def)
  ultimately show ?thesis
    by (simp add: validate_mismatchRejectedDoc)
qed

text \<open>
  Claim C7, amended: for every runtime and every input that passes the top-level checks
  and is repairable (its date and currency and the id and description of each item are
  strings or falsy, no item is \<open>null\<close>, and no numeric coercion throws), the validator
  returns a receipt also when the item prices sum to a value different from the total,
  and the receipt keeps the difference: the sum the validator computes over the
  sanitized items is not compared with the total, and neither is changed.
\<close>

theorem mismatch_tolerated:
  assumes "topLevelOk d" and "repairable rt d" and "statedItemsSum rt d \<noteq> statedTotal rt d"
  shows "validateReceiptIntegrity rt d = Some (repairedReceipt rt d)
         \<and> itemsSum (repairedReceipt rt d) \<noteq> total (repairedReceipt rt d)"
proof
  from assms(1,2) show "validateReceiptIntegrity rt d = Some (repairedReceipt rt d)"
    by (simp add: validate_char)
  from assms(3) show "itemsSum (repairedReceipt rt d) \<noteq> total (repairedReceipt rt d)"
    by (simp add: itemsSum_repairedReceipt total_repairedReceipt)
qed

text \<open>
  The amended claim on the document with a \<open>null\<close> date and the price \<open>"10"\<close>: prices
  10, total 99, accepted, and the receipt has the item sum 10 and the total 99.
\<close>

theorem mismatch_tolerated_witness:
  "topLevelOk mismatchDoc \<and> repairable JS mismatchDoc
   \<and> statedItemsSum JS mismatchDoc = Fin 10 \<and> statedTotal JS mismatchDoc = Fin 99
   \<and> validateReceiptIntegrity JS mismatchDoc = Some mismatchReceipt
   \<and> itemsSum mismatchReceipt = Fin 10 \<and> total mismatchReceipt = Fin 99"
proof -
  have top: "topLevelOk mismatchDoc"
    by (simp add: document_eval mismatchDoc_def)
  have rep: "repairable JS mismatchDoc"
    by (simp add: document_eval mismatchDoc_def JS_def)
  have sum: "statedItemsSum JS mismatchDoc = Fin 10"
    by (simp add: document_eval mismatchDoc_def JS_def number_text_eval string_eval)
  have tot: "statedTotal JS mismatchDoc = Fin 99"
    by (simp add: document_eval mismatchDoc_def)
  from sum tot have "statedItemsSum JS mismatchDoc \<noteq> statedTotal JS mismatchDoc"
    by simp
  with top rep
  have "validateReceiptIntegrity JS mismatchDoc = Some (repairedReceipt JS mismatchDoc)
      \<and> itemsSum (repairedReceipt JS mismatchDoc) \<noteq> total (repairedReceipt JS mismatchDoc)"
    by (rule mismatch_tolerated)
  then have "repairedReceipt JS mismatchDoc = mismatchReceipt"
    by (simp add: validate_mismatchDoc)
  moreover have "itemsSum mismatchReceipt = Fin 10" "total mismatchReceipt = Fin 99"
    by (simp_all add: mismatchReceipt_def itemsSum_def)
  ultimately show ?thesis
    using top rep sum tot by (simp add: validate_mismatchDoc)
qed

section \<open>The allocation on a receipt with a negative subtotal\<close>

text \<open>
  Claim C1 describes the allocation for every validated receipt; its second step takes
  the receipt's subtotal when it is positive and the sum of the item prices otherwise.
  The validator lets a negative subtotal through (it clamps the quantity and the price of
  an item, not the four amounts of the receipt), and \<^verbatim>\<open>receipt.subtotal || ...\<close> keeps a
  negative subtotal, which is truthy.  On the document with subtotal \<open>-5\<close>, tax \<open>2\<close> and one
  item of price \<open>10\<close>, selected whole, the program computes the ratio \<open>0\<close> and no tax,
  where the claim gives the ratio \<open>10 / 10 = 1\<close> and the tax \<open>2\<close>.
\<close>

theorem calculations_negative_subtotal:
  "validateReceiptIntegrity rt negativeSubtotalDoc = Some negativeSubtotalReceipt
   \<and> calculations (Some negativeSubtotalReceipt) [(lit ''a'', selectionWhole)]
       = \<lparr>userSubtotal = Fin 10, userTax = Fin 0, userTip = Fin 0, userTotal = Fin 10,
          userRatio = Fin 0\<rparr>
   \<and> spec_allocation negativeSubtotalReceipt [selectionWhole]
       = \<lparr>userSubtotal = Fin 10, userTax = Fin 2, userTip = Fin 0, userTotal = Fin 12,
          userRatio = Fin 1\<rparr>"
proof (intro conjI)
  show "validateReceiptIntegrity rt negativeSubtotalDoc = Some negativeSubtotalReceipt"
    by (rule validate_negativeSubtotalDoc)
  show "calculations (Some negativeSubtotalReceipt) [(lit ''a'', selectionWhole)]
       = \<lparr>userSubtotal = Fin 10, userTax = Fin 0, userTip = Fin 0, userTotal = Fin 10,
          userRatio = Fin 0\<rparr>"
    by (simp add: allocation_eval negativeSubtotalReceipt_def selectionWhole_def)
  show "spec_allocation negativeSubtotalReceipt [selectionWhole]
       = \<lparr>userSubtotal = Fin 10, userTax = Fin 2, userTip = Fin 0, userTotal = Fin 12,
          userRatio = Fin 1\<rparr>"
    by (simp add: spec_allocation_def spec_ratio_def spec_receiptSubtotal_def
        spec_claimedSubtotal_def spec_share_def negativeSubtotalReceipt_def selectionWhole_def
        lit_def cu_def)
qed

theorem calculations_negative_subtotal_witness:
  "validateReceiptIntegrity JS negativeSubtotalDoc = Some negativeSubtotalReceipt
   \<and> userRatio (calculations (Some negativeSubtotalReceipt) [(lit ''a'', selectionWhole)]) = Fin 0
   \<and> userRatio (spec_allocation negativeSubtotalReceipt [selectionWhole]) = Fin 1"
  using calculations_negative_subtotal [of JS] by simp

section \<open>Facts about the share link\<close>

lemma field_minifiedItem:
  "field (minifiedItem i) ''id'' = Str (id' i)"
  "field (minifiedItem i) ''quantity'' = Num (quantity i)"
  "field (minifiedItem i) ''description'' = Str (description i)"
  "field (minifiedItem i) ''price'' = Num (price i)"
  by (simp_all add: field_def minifiedItem_def lit_def cu_def)

lemma field_minifiedReceipt:
  "field (minifiedReceipt r) ''restaurantName'' = Str (restaurantName r)"
  "field (minifiedReceipt r) ''date'' = Str (date r)"
  "field (minifiedReceipt r) ''currency'' = Str (currency r)"
  "field (minifiedReceipt r) ''subtotal'' = Num (subtotal r)"
  "field (minifiedReceipt r) ''tax'' = Num (tax r)"
  "field (minifiedReceipt r) ''tip'' = Num (tip r)"
  "field (minifiedReceipt r) ''total'' = Num (total r)"
  "field (minifiedReceipt r) ''items'' = Arr (map minifiedItem (items r))"
  by (simp_all add: field_def minifiedReceipt_def lit_def cu_def)

lemma topLevelOk_minifiedReceipt: "topLevelOk (minifiedReceipt r)"
  by (simp add: topLevelOk_def field_minifiedReceipt) (simp add: minifiedReceipt_def)

lemma itemRepairable_minifiedItem: "itemRepairable rt (minifiedItem i)"
  by (simp add: itemRepairable_def field_minifiedItem stringOrFalsy_def coercible_def)
    (simp add: minifiedItem_def)

lemma repairable_minifiedReceipt: "repairable rt (minifiedReceipt r)"
  by (simp add: repairable_def field_minifiedReceipt stringOrFalsy_def coercible_def elements_def
      list_all_iff itemRepairable_minifiedItem)

lemma textOrDefault_stable:
  "stableText s \<Longrightarrow> s \<noteq> [] \<or> d = [] \<Longrightarrow> textOrDefault (Str s) d = s"
  by (auto simp: textOrDefault_def stableText_def)

lemma coercedOr_stable: "isFinite n \<Longrightarrow> coercedOr rt (Num n) (Fin 0) = n"
  by (cases n) (auto simp: coercedOr_def num_or_def truthyNum_def)

lemma quantity_stable:
  "isFinite n \<Longrightarrow> positive n \<Longrightarrow> numberOrDefault rt (Num n) (Fin 1) = n"
  by (cases n) (auto simp: numberOrDefault_def coercedOr_def num_or_def truthyNum_def)

lemma price_stable:
  "isFinite n \<Longrightarrow> nonNegative n \<Longrightarrow> numberOrDefault rt (Num n) (Fin 0) = n"
  by (cases n) (auto simp: numberOrDefault_def coercedOr_def num_or_def truthyNum_def)

lemma repairedItem_stable: "stableItem i \<Longrightarrow> repairedItem rt (minifiedItem i) idx = i"
  by (simp add: repairedItem_def field_minifiedItem stableItem_def textOrDefault_stable
      quantity_stable price_stable)

lemma repairedItems_stable:
  "list_all stableItem is \<Longrightarrow> repairedItems rt (map minifiedItem is) idx = is"
  by (induction "is" arbitrary: idx) (auto simp: repairedItem_stable)

lemma repairedReceipt_stable:
  assumes "stableReceipt r"
  shows "repairedReceipt rt (minifiedReceipt r) = r"
  using assms
  by (simp add: repairedReceipt_def field_minifiedReceipt stableReceipt_def textOrDefault_stable
      coercedOr_stable repairedItems_stable elements_def)

text \<open>The validator gives a stable receipt back from its minimal projection.\<close>

lemma validate_projection:
  assumes "stableReceipt r"
  shows "validateReceiptIntegrity rt (minifiedReceipt r) = Some r"
  using validate_char [OF topLevelOk_minifiedReceipt, of rt r]
  by (simp add: repairable_minifiedReceipt repairedReceipt_stable [OF assms])

text \<open>The two loops between bytes and characters undo each other.\<close>

lemma byte_round_trip: "(of_nat (unat (of_nat (unat b) :: codeunit) mod 256) :: byte) = b"
proof -
  have "unat b < 2 ^ LENGTH(8)"
    by (rule unsigned_less)
  then have lt: "unat b < 256"
    by simp
  have "unat (of_nat (unat b) :: codeunit) = unat b mod 2 ^ LENGTH(16)"
    by (rule unat_of_nat)
  with lt have "unat (of_nat (unat b) :: codeunit) = unat b"
    by simp
  with lt have "unat (of_nat (unat b) :: codeunit) mod 256 = unat b"
    by simp
  then have "(of_nat (unat (of_nat (unat b) :: codeunit) mod 256) :: byte) = of_nat (unat b)"
    by (rule arg_cong)
  then show ?thesis
    by simp
qed

lemma byteArray_binaryString: "byteArray (binaryString bytes) = bytes"
  unfolding byteArray_def binaryString_def map_map comp_def byte_round_trip
  by simp

text \<open>
  What \<open>handleHashChange\<close> does, stage by stage: a token of at most ten code units and a
  token whose base64 decoding fails or is empty leave the application as it is; a
  failure of the percent-decoding, of \<^verbatim>\<open>JSON.parse\<close> or of the validator gives the
  invalid-link state.
\<close>

lemma handleHashChange_short:
  "length hash \<le> 10 \<Longrightarrow> handleHashChange rt hash app = app"
  by (simp add: handleHashChange_def)

lemma handleHashChange_bad_escape:
  "length hash > 10 \<Longrightarrow> decodeURIComponent rt hash = None
     \<Longrightarrow> handleHashChange rt hash app = linkInvalid app"
  by (auto simp: handleHashChange_def)

lemma handleHashChange_bad_base64:
  "decodeURIComponent rt hash = Some b64 \<Longrightarrow> atob rt b64 = None
     \<Longrightarrow> handleHashChange rt hash app = app"
  by (simp add: handleHashChange_def safeAtob_def)

lemma handleHashChange_bad_json:
  "length hash > 10 \<Longrightarrow> decodeURIComponent rt hash = Some b64 \<Longrightarrow> safeAtob rt b64 \<noteq> []
     \<Longrightarrow> JSON_parse rt (safeAtob rt b64) = None
     \<Longrightarrow> handleHashChange rt hash app = linkInvalid app"
  by (auto simp: handleHashChange_def)

lemma handleHashChange_parsed:
  "length hash > 10 \<Longrightarrow> decodeURIComponent rt hash = Some b64 \<Longrightarrow> safeAtob rt b64 \<noteq> []
     \<Longrightarrow> JSON_parse rt (safeAtob rt b64) = Some rawData
     \<Longrightarrow> handleHashChange rt hash app
         = (case validateReceiptIntegrity rt rawData of
              Some validated \<Rightarrow>
                app\<lparr>receipt := Some validated, appState := CONFIRM_INFO, error := None\<rparr>
            | None \<Rightarrow> linkInvalid app)"
  by (auto simp: handleHashChange_def)

section \<open>The share link on the examples\<close>

lemmas base64_eval = js_btoa_def js_atob_def b64char_def b64chars_def b64val_def stripPadding_def
  isAsciiWhitespace_def binaryString_def byteArray_def

lemmas utf8_eval = utf8_encode_def utf8_decode_def utf8_def utf16_def utf8_start_def
  isHighSurrogate_def isLowSurrogate_def isSurrogate_def pairValue_def

lemmas uri_eval = js_encodeURIComponent_def js_decodeURIComponent_def isUnreserved_def isAlnum_def
  pct_def hexDigits_def hexVal_def isCont_def

lemmas json_eval = hex4_def escapeUnit_def quoteJSONString_def js_JSON_stringify_def
  isJsonSpace_def skipSpace_def simpleEscape_def hexValue4_def parseJsonNumber_def
  parseLiteral_def makeObject_def js_JSON_parse_def joinWith_def isSurrogate_def
  isHighSurrogate_def isLowSurrogate_def number_text_eval natToString.simps

lemma zeroQuantity_valid:
  "validateReceiptIntegrity rt zeroQuantityDoc = Some zeroQuantityReceipt"
  by (simp add: validator_eval zeroQuantityDoc_def zeroQuantityReceipt_def)

lemma zeroQuantity_stringify:
  "JSON_stringify JS (minifiedReceipt zeroQuantityReceipt) = Some zeroQuantityJson"
  by (simp add: JS_def minifiedReceipt_def minifiedItem_def zeroQuantityReceipt_def
      zeroQuantityJson_def json_eval lit_def cu_def)

lemma zeroQuantity_btoa: "safeBtoa JS zeroQuantityJson = zeroQuantityBase64"
  by (simp add: JS_def safeBtoa_def zeroQuantityJson_def zeroQuantityBase64_def base64_eval
      utf8_eval lit_def cu_def)

lemma zeroQuantity_encode: "encodeURIComponent JS zeroQuantityBase64 = Some zeroQuantityToken"
  by (simp add: JS_def zeroQuantityBase64_def zeroQuantityToken_def uri_eval utf8_eval lit_def
      cu_def)

lemma zeroQuantity_decode: "decodeURIComponent JS zeroQuantityToken = Some zeroQuantityBase64"
  by (simp add: JS_def zeroQuantityBase64_def zeroQuantityToken_def uri_eval utf8_eval lit_def
      cu_def)

lemma zeroQuantity_atob: "safeAtob JS zeroQuantityBase64 = zeroQuantityJson"
  by (simp add: JS_def safeAtob_def zeroQuantityJson_def zeroQuantityBase64_def base64_eval
      utf8_eval lit_def cu_def)

lemma zeroQuantity_parse:
  "JSON_parse JS zeroQuantityJson = Some (minifiedReceipt zeroQuantityReceipt)"
  by (simp add: JS_def minifiedReceipt_def minifiedItem_def zeroQuantityReceipt_def
      zeroQuantityJson_def json_eval lit_def cu_def)

lemma zeroQuantity_revalidated:
  "validateReceiptIntegrity rt (minifiedReceipt zeroQuantityReceipt)
     = Some (zeroQuantityReceipt
         \<lparr>items := [\<lparr>id' = lit ''a'', quantity = Fin 1, description = lit ''x'', price = Fin 1\<rparr>]\<rparr>)"
  by (simp add: validator_eval minifiedReceipt_def minifiedItem_def zeroQuantityReceipt_def)

lemma zeroQuantity_token_length: "length zeroQuantityToken > 10"
  by (simp add: zeroQuantityToken_def lit_def)

lemma zeroQuantity_json_not_empty: "zeroQuantityJson \<noteq> []"
  by (simp add: zeroQuantityJson_def lit_def)

lemma cafe_stable: "stableReceipt cafeReceipt"
  by (simp add: stableReceipt_def stableItem_def stableText_def cafeReceipt_def string_eval)

lemma cafe_stringify: "JSON_stringify JS (minifiedReceipt cafeReceipt) = Some cafeJson"
  by (simp add: JS_def minifiedReceipt_def minifiedItem_def cafeReceipt_def cafeJson_def
      json_eval lit_def cu_def)

lemma cafe_parse: "JSON_parse JS cafeJson = Some (minifiedReceipt cafeReceipt)"
  by (simp add: JS_def minifiedReceipt_def minifiedItem_def cafeReceipt_def cafeJson_def
      json_eval lit_def cu_def)

lemma cafe_utf8: "TextDecoder_decode JS (TextEncoder_encode JS cafeJson) = cafeJson"
  by (simp add: JS_def cafeJson_def utf8_eval lit_def cu_def)

lemma cafe_btoa: "btoa JS (binaryString (TextEncoder_encode JS cafeJson)) = Some cafeToken"
  by (simp add: JS_def cafeJson_def cafeToken_def base64_eval utf8_eval lit_def cu_def)

lemma cafe_atob: "atob JS cafeToken = Some (binaryString (TextEncoder_encode JS cafeJson))"
  by (simp add: JS_def cafeJson_def cafeToken_def base64_eval utf8_eval lit_def cu_def)

lemma cafe_encode: "encodeURIComponent JS cafeToken = Some cafeToken"
  by (simp add: JS_def cafeToken_def uri_eval utf8_eval lit_def cu_def)

lemma cafe_decode: "decodeURIComponent JS cafeToken = Some cafeToken"
  by (simp add: JS_def cafeToken_def uri_eval utf8_eval lit_def cu_def)

lemma cafe_lengths: "length cafeToken > 10" "cafeJson \<noteq> []"
  by (simp_all add: cafeToken_def cafeJson_def lit_def)

lemma cafe_runtimeRoundTrips: "runtimeRoundTrips JS (minifiedReceipt cafeReceipt)"
  by (simp add: runtimeRoundTrips_def cafe_stringify cafe_parse cafe_utf8 cafe_btoa cafe_atob
      cafe_encode cafe_decode cafe_lengths)

section \<open>Claims about the share link\<close>

text \<open>
  Claim C3, as the specification states it: for every valid receipt \<open>r\<close>, decoding the
  token of \<open>r\<close> gives \<open>r\<close> back.  This fails, because decoding validates again and the
  validator does not leave every receipt of its own making as it is.  The validator
  clamps the quantity \<open>-3\<close> to \<open>0\<close>; the runtime carries the receipt through the link
  unchanged; and the validator then reads the quantity \<open>0\<close> as missing and makes it \<open>1\<close>.
\<close>

theorem round_trip_changes_quantity:
  "validateReceiptIntegrity JS zeroQuantityDoc = Some zeroQuantityReceipt
   \<and> generateShareLink JS (Some zeroQuantityReceipt) = Some zeroQuantityToken
   \<and> receipt (handleHashChange JS zeroQuantityToken summaryApp)
       = Some (zeroQuantityReceipt
           \<lparr>items := [\<lparr>id' = lit ''a'', quantity = Fin 1, description = lit ''x'', price = Fin 1\<rparr>]\<rparr>)
   \<and> receipt (handleHashChange JS zeroQuantityToken summaryApp) \<noteq> Some zeroQuantityReceipt"
proof -
  have link: "generateShareLink JS (Some zeroQuantityReceipt) = Some zeroQuantityToken"
    by (simp add: generateShareLink_def zeroQuantity_stringify zeroQuantity_btoa
        zeroQuantity_encode)
  have "handleHashChange JS zeroQuantityToken summaryApp
      = (case validateReceiptIntegrity JS (minifiedReceipt zeroQuantityReceipt) of
           Some validated \<Rightarrow>
             summaryApp\<lparr>receipt := Some validated, appState := CONFIRM_INFO, error := None\<rparr>
         | None \<Rightarrow> linkInvalid summaryApp)"
    using zeroQuantity_token_length zeroQuantity_decode
    by (rule handleHashChange_parsed)
      (simp_all add: zeroQuantity_atob zeroQuantity_parse zeroQuantity_json_not_empty)
  then have decoded: "receipt (handleHashChange JS zeroQuantityToken summaryApp)
      = Some (zeroQuantityReceipt
          \<lparr>items := [\<lparr>id' = lit ''a'', quantity = Fin 1, description = lit ''x'', price = Fin 1\<rparr>]\<rparr>)"
    by (simp add: zeroQuantity_revalidated)
  have "receipt (handleHashChange JS zeroQuantityToken summaryApp) \<noteq> Some zeroQuantityReceipt"
    unfolding decoded by (simp add: zeroQuantityReceipt_def)
  with link decoded show ?thesis
    by (simp add: zeroQuantity_valid)
qed

text \<open>
  Claim C3, amended: for every stable receipt \<open>r\<close> (its texts are unchanged by
  \<open>sanitizeString\<close>; ids, descriptions and the currency are not empty; all numbers are
  finite, quantities positive, prices not negative) and every runtime whose JSON, UTF-8,
  base64 and percent codecs undo each other on the text of \<open>r\<close>'s projection,
  \<open>generateShareLink\<close> produces a token and \<open>handleHashChange\<close> on that token stores
  exactly \<open>r\<close>, with its items in order, and shows no error.
\<close>

theorem share_link_round_trip:
  assumes "stableReceipt r" and "runtimeRoundTrips rt (minifiedReceipt r)"
  shows "\<exists>token. generateShareLink rt (Some r) = Some token
           \<and> handleHashChange rt token app
               = app\<lparr>receipt := Some r, appState := CONFIRM_INFO, error := None\<rparr>"
proof -
  from assms(2) obtain json where json: "JSON_stringify rt (minifiedReceipt r) = Some json"
      and json_ne: "json \<noteq> []"
      and parse: "JSON_parse rt json = Some (minifiedReceipt r)"
      and utf8: "TextDecoder_decode rt (TextEncoder_encode rt json) = json"
      and rest: "case btoa rt (binaryString (TextEncoder_encode rt json)) of
                   None \<Rightarrow> False
                 | Some b64 \<Rightarrow>
                     atob rt b64 = Some (binaryString (TextEncoder_encode rt json))
                     \<and> (case encodeURIComponent rt b64 of
                           None \<Rightarrow> False
                         | Some token \<Rightarrow>
                             length token > 10 \<and> decodeURIComponent rt token = Some b64)"
    by (auto simp: runtimeRoundTrips_def split: option.splits)
  from rest obtain b64 where btoa: "btoa rt (binaryString (TextEncoder_encode rt json)) = Some b64"
      and atob: "atob rt b64 = Some (binaryString (TextEncoder_encode rt json))"
      and rest': "case encodeURIComponent rt b64 of
                    None \<Rightarrow> False
                  | Some token \<Rightarrow> length token > 10 \<and> decodeURIComponent rt token = Some b64"
    by (auto split: option.splits)
  from rest' obtain token where enc: "encodeURIComponent rt b64 = Some token"
      and len: "length token > 10" and dec: "decodeURIComponent rt token = Some b64"
    by (auto split: option.splits)
  have link: "generateShareLink rt (Some r) = Some token"
    by (simp add: generateShareLink_def json safeBtoa_def btoa enc)
  have restored: "safeAtob rt b64 = json"
    by (simp add: safeAtob_def atob byteArray_binaryString utf8)
  have "handleHashChange rt token app
      = (case validateReceiptIntegrity rt (minifiedReceipt r) of
           Some validated \<Rightarrow>
             app\<lparr>receipt := Some validated, appState := CONFIRM_INFO, error := None\<rparr>
         | None \<Rightarrow> linkInvalid app)"
    using len dec by (rule handleHashChange_parsed) (simp_all add: restored json_ne parse)
  also have "\<dots> = app\<lparr>receipt := Some r, appState := CONFIRM_INFO, error := None\<rparr>"
    by (simp add: validate_projection [OF assms(1)])
  finally show ?thesis
    using link by blast
qed

text \<open>
  The amended claim on the receipt of \<open>Caf\<close>U+00E9 with the currency U+20AC and the
  reference runtime.
\<close>

theorem share_link_round_trip_witness:
  "stableReceipt cafeReceipt \<and> runtimeRoundTrips JS (minifiedReceipt cafeReceipt)
   \<and> generateShareLink JS (Some cafeReceipt) = Some cafeToken
   \<and> handleHashChange JS cafeToken summaryApp
       = summaryApp\<lparr>receipt := Some cafeReceipt, appState := CONFIRM_INFO, error := None\<rparr>"
proof -
  from share_link_round_trip [OF cafe_stable cafe_runtimeRoundTrips, of summaryApp]
  obtain token where link: "generateShareLink JS (Some cafeReceipt) = Some token"
    and shown: "handleHashChange JS token summaryApp
       = summaryApp\<lparr>receipt := Some cafeReceipt, appState := CONFIRM_INFO, error := None\<rparr>"
    by blast
  have "generateShareLink JS (Some cafeReceipt) = Some cafeToken"
    by (simp add: generateShareLink_def safeBtoa_def cafe_stringify cafe_btoa cafe_encode)
  with link have "token = cafeToken"
    by simp
  with link shown show ?thesis
    by (simp add: cafe_stable cafe_runtimeRoundTrips)
qed

text \<open>
  Claim C6 says that a failure at any stage of the decoding gives the one invalid-link
  outcome.  A token whose percent escape is cut short, one that carries text that is not
  JSON, and one that carries a document the validator rejects all give it.  A token that
  is not base64 does not: \<open>safeAtob\<close> catches the exception of \<^verbatim>\<open>atob\<close> and returns the
  empty string, and \<open>handleHashChange\<close> skips an empty string without an \<^verbatim>\<open>else\<close>; the
  application stays on its screen with its receipt and shows no error.
\<close>

theorem bad_base64_is_silent:
  "handleHashChange JS badBase64Hash summaryApp = summaryApp
   \<and> error (handleHashChange JS badBase64Hash summaryApp) = None
   \<and> appState (handleHashChange JS badBase64Hash summaryApp) = SUMMARY
   \<and> handleHashChange JS badEscapeHash summaryApp = linkInvalid summaryApp
   \<and> handleHashChange JS badJsonHash summaryApp = linkInvalid summaryApp
   \<and> handleHashChange JS rejectedHash summaryApp = linkInvalid summaryApp
   \<and> appState (linkInvalid summaryApp) = HOME
   \<and> error (linkInvalid summaryApp)
       = Some (lit ''The shared link is invalid or has been tampered with.'')"
proof -
  have "decodeURIComponent JS badBase64Hash = Some badBase64Hash"
    by (simp add: JS_def badBase64Hash_def uri_eval lit_def cu_def)
  moreover have "atob JS badBase64Hash = None"
    by (simp add: JS_def badBase64Hash_def base64_eval lit_def cu_def)
  ultimately have silent: "handleHashChange JS badBase64Hash summaryApp = summaryApp"
    by (rule handleHashChange_bad_base64)
  have "length badEscapeHash > 10"
    by (simp add: badEscapeHash_def lit_def)
  moreover have "decodeURIComponent JS badEscapeHash = None"
    by (simp add: JS_def badEscapeHash_def uri_eval lit_def cu_def)
  ultimately have escape: "handleHashChange JS badEscapeHash summaryApp = linkInvalid summaryApp"
    by (rule handleHashChange_bad_escape)
  have json: "handleHashChange JS badJsonHash summaryApp = linkInvalid summaryApp"
    by (simp add: handleHashChange_def safeAtob_def JS_def badJsonHash_def uri_eval base64_eval
        utf8_eval json_eval lit_def cu_def)
  have rejected: "handleHashChange JS rejectedHash summaryApp = linkInvalid summaryApp"
    by (simp add: handleHashChange_def safeAtob_def JS_def rejectedHash_def uri_eval base64_eval
        utf8_eval json_eval validator_eval)
  show ?thesis
    by (simp add: silent escape json rejected) (simp add: linkInvalid_def summaryApp_def)
qed

end
